theory Spec2Isabelle
  imports Complex_Main "HOL-Library.AList" "HOL-Library.Log_Nat"
begin

section \<open>Data model (types.ts)\<close>

text \<open>
  The enum \<open>PartType\<close>, in the order of its declaration. The string values of the enum
  (\<open>'CPU'\<close>, \<open>'Motherboard'\<close>, ...) only serve as object keys and labels.
\<close>

datatype PartType = CPU | MOTHERBOARD | RAM | GPU | STORAGE | PSU | CASE | COOLER

text \<open>
  \<open>interface ComponentData\<close>. A number is the rational its double denotes (section
  "JavaScript numbers" below). \<open>specs: Record<string, string>\<close> is an association list in
  insertion order, and \<open>s.socket\<close> on such an object is \<open>map_of s ''socket''\<close>. The
  interface declares \<open>specs\<close> as required, but the records come from the catalog
  provider, whose response schema does not require \<open>specs\<close>, and are spread into the
  result unchecked: \<open>specs\<close> is \<open>None\<close> when the provider left it out. The fields \<open>id\<close>
  and \<open>image\<close> are named \<open>part_id\<close> and \<open>image_url\<close>, since \<open>id\<close> and \<open>image\<close> are
  constants of HOL. The union type of \<open>retailer\<close> is erased at run time and filled from
  a provider string, so it is a string here.
\<close>

record ComponentData =
  part_id :: string
  name :: string
  price :: rat
  image_url :: string
  type :: PartType
  specs :: "(string \<times> string) list option"
  rating :: rat
  retailer :: string
  url :: string

text \<open>
  \<open>interface BuildState\<close>: an object with at most one entry per \<open>PartType\<close> key. Own
  string keys of a JavaScript object are enumerated in insertion order, so the object is
  an association list; \<open>build[t]\<close> is \<open>map_of build t\<close> (\<open>None\<close> for \<open>undefined\<close>).
\<close>

type_synonym BuildState = "(PartType \<times> ComponentData) list"

text \<open>
  \<open>interface CompatibilityResult\<close>. The field \<open>notes\<close> is named \<open>notes_list\<close>, since
  \<open>notes\<close> is a keyword of Isabelle.
\<close>

record CompatibilityResult =
  isCompatible :: bool
  issues :: "string list"
  notes_list :: "string list"
  estimatedWattage :: rat
  bottleneck :: string
  aiScore :: rat

text \<open>
  The values \<open>JSON.parse\<close> can return. \<open>checkCompatibility\<close> returns such a value under
  the static type \<open>CompatibilityResult\<close> without inspecting it.
\<close>

datatype json =
    JNull
  | JBool bool
  | JNum rat
  | JStr string
  | JArr "json list"
  | JObj "(string \<times> json) list"

text \<open>
  What a call of the generative service can do, seen from the \<open>try\<close> block around it:
  \<^item> \<open>Rejects\<close>: \<open>getAI()\<close> or \<open>ai.models.generateContent\<close> throws or rejects;
  \<^item> \<open>NoText\<close>: the call returns and \<open>response.text\<close> is falsy (\<open>undefined\<close> or \<open>""\<close>);
  \<^item> \<open>BadJson\<close>: \<open>response.text\<close> is truthy and \<open>JSON.parse\<close> throws a \<open>SyntaxError\<close>;
  \<^item> \<open>Parsed v\<close>: \<open>response.text\<close> is truthy and \<open>JSON.parse\<close> returns \<open>v\<close>.
\<close>

datatype 'a ai_response = Rejects | NoText | BadJson | Parsed 'a

section \<open>JavaScript numbers\<close>

text \<open>
  A JavaScript \<open>number\<close> is an IEEE-754 double. A finite double is modelled as the
  rational it denotes, and an arithmetic operation as the exact operation followed by
  rounding to the nearest double, ties to the even significand (\<open>toDouble\<close>): 53
  significant bits, with the fixed exponent \<open>-1074\<close> of the subnormal range. \<open>NaN\<close>
  and the infinities are outside the model, so a sum beyond the largest double (about
  \<open>1.8e308\<close>) is too. \<open>JSON.parse\<close> turns a decimal literal into a number with the same
  rounding.

  \<open>pow2 e\<close> is \<open>2\<close> to the integer power \<open>e\<close>; \<open>floorLog2 x\<close> is the integer \<open>k\<close> with
  \<open>pow2 k \<le> x < pow2 (k + 1)\<close> for a positive \<open>x\<close>, found from the bit lengths of the
  numerator and the denominator; \<open>roundHalfEven\<close> rounds to the nearest integer, a tie
  to the even one.
\<close>

definition pow2 :: "int \<Rightarrow> rat" where
  "pow2 e = (if 0 \<le> e then 2 ^ nat e else 1 / 2 ^ nat (- e))"

definition floorLog2 :: "rat \<Rightarrow> int" where
  "floorLog2 x =
     (case quotient_of x of (p, q) \<Rightarrow>
        (let e0 = bitlen p - bitlen q in if pow2 e0 \<le> x then e0 else e0 - 1))"

definition roundHalfEven :: "rat \<Rightarrow> int" where
  "roundHalfEven m =
     (let f = \<lfloor>m\<rfloor>; d = m - of_int f
      in if d < 1 / 2 then f else if 1 / 2 < d then f + 1 else if even f then f else f + 1)"

definition toDouble :: "rat \<Rightarrow> rat" where
  "toDouble x =
     (if x = 0 then 0
      else (let e = max (floorLog2 \<bar>x\<bar> - 52) (- 1074);
                r = roundHalfEven (\<bar>x\<bar> / pow2 e)
            in sgn x * of_int r * pow2 e))"

text \<open>The operator \<open>+\<close> on two numbers.\<close>

definition jsAdd :: "rat \<Rightarrow> rat \<Rightarrow> rat" where
  "jsAdd a b = toDouble (a + b)"

section \<open>services/geminiService.ts\<close>

text \<open>
  An element of the array the catalog provider returns, with the fields of the
  \<open>responseSchema\<close> of \<open>fetchComponents\<close>: the provider's \<open>type\<close> is a free string, and
  \<open>specs\<close> is not among the required properties.
\<close>

record ProviderItem =
  item_id :: string
  item_name :: string
  item_price :: rat
  item_image :: string
  item_type :: string
  item_specs :: "(string \<times> string) list option"
  item_rating :: rat
  item_retailer :: string
  item_url :: string

text \<open>
  \<open>fetchComponents(category, query)\<close>. The whole body is inside \<open>try\<close>, and the \<open>catch\<close>
  block logs and returns \<open>[]\<close>, so the promise is fulfilled on every path. The result is
  a sum all the same (\<open>Inl\<close> for a rejected promise), because the caller \<open>loadItems\<close>
  has a \<open>catch\<close> branch. The query only enters the prompt.
  \<^verbatim>\<open>
    if (response.text) {
        const rawData = JSON.parse(response.text);
        return rawData.map((item: any) => ({
            ...item,
            image: `https://picsum.photos/seed/${item.id}/200/200`,
            type: category
        }));
    }
    return [];
  } catch (error) { console.error(...); return []; }
  \<close>
\<close>

definition normalizeItem :: "PartType \<Rightarrow> ProviderItem \<Rightarrow> ComponentData" where
  "normalizeItem category item =
     \<lparr> part_id = item_id item,
       name = item_name item,
       price = item_price item,
       image_url = ''https://picsum.photos/seed/'' @ item_id item @ ''/200/200'',
       type = category,
       specs = item_specs item,
       rating = item_rating item,
       retailer = item_retailer item,
       url = item_url item \<rparr>"

definition fetchComponents ::
  "PartType \<Rightarrow> string \<Rightarrow> ProviderItem list ai_response \<Rightarrow> unit + ComponentData list" where
  "fetchComponents category query response =
     (case response of
        Parsed rawData \<Rightarrow> Inr (map (normalizeItem category) rawData)
      | NoText \<Rightarrow> Inr []
      | BadJson \<Rightarrow> Inr []
      | Rejects \<Rightarrow> Inr [])"

text \<open>The object literal in the \<open>catch\<close> block of \<open>checkCompatibility\<close>.\<close>

definition FALLBACK :: json where
  "FALLBACK = JObj
     [ (''isCompatible'', JBool True),
       (''issues'', JArr [JStr ''Could not verify compatibility (AI Error)'']),
       (''notes'', JArr []),
       (''estimatedWattage'', JNum 0),
       (''bottleneck'', JStr ''Unknown''),
       (''aiScore'', JNum 0) ]"

text \<open>
  \<open>checkCompatibility(build)\<close>. The build only enters the prompt.
  \<^verbatim>\<open>
    if (response.text) { return JSON.parse(response.text); }
    throw new Error("No analysis returned");
  } catch (error) { console.error(...); return { isCompatible: true, ... }; }
  \<close>
\<close>

definition checkCompatibility :: "BuildState \<Rightarrow> json ai_response \<Rightarrow> json" where
  "checkCompatibility build response =
     (case response of
        Parsed v \<Rightarrow> v
      | NoText \<Rightarrow> FALLBACK
      | BadJson \<Rightarrow> FALLBACK
      | Rejects \<Rightarrow> FALLBACK)"

text \<open>
  Reading a JavaScript value at the type \<open>CompatibilityResult\<close> of types.ts: an object
  with the six fields, each of the declared type. The code has no such check; the
  function states what a well-formed result is.
\<close>

fun strings :: "json list \<Rightarrow> string list option" where
  "strings [] = Some []"
| "strings (JStr s # vs) = (case strings vs of None \<Rightarrow> None | Some ss \<Rightarrow> Some (s # ss))"
| "strings (_ # vs) = None"

definition asCompatibilityResult :: "json \<Rightarrow> CompatibilityResult option" where
  "asCompatibilityResult v =
     (case v of
        JObj fs \<Rightarrow>
          (case (map_of fs ''isCompatible'', map_of fs ''issues'', map_of fs ''notes'',
                 map_of fs ''estimatedWattage'', map_of fs ''bottleneck'', map_of fs ''aiScore'') of
             (Some (JBool c), Some (JArr iss), Some (JArr ns),
              Some (JNum w), Some (JStr b), Some (JNum s)) \<Rightarrow>
               (case (strings iss, strings ns) of
                  (Some iss', Some ns') \<Rightarrow>
                    Some \<lparr> isCompatible = c, issues = iss', notes_list = ns',
                           estimatedWattage = w, bottleneck = b, aiScore = s \<rparr>
                | _ \<Rightarrow> None)
           | _ \<Rightarrow> None)
      | _ \<Rightarrow> None)"

section \<open>components/ComponentList.tsx\<close>

text \<open>The four \<open>useState\<close> cells of the component.\<close>

record ListState =
  items :: "ComponentData list"
  loading :: bool
  error :: "string option"
  search :: string

text \<open>
  \<open>loadItems\<close>, from the call to the end of the \<open>finally\<close> block, given the provider's
  response to the request.
  \<^verbatim>\<open>
    setLoading(true); setError(null);
    try { const data = await fetchComponents(selectedCategory, search); setItems(data); }
    catch (err) { setError("Failed to load components. Please check API Key."); }
    finally { setLoading(false); }
  \<close>
\<close>

definition loadItems ::
  "PartType \<Rightarrow> ProviderItem list ai_response \<Rightarrow> ListState \<Rightarrow> ListState" where
  "loadItems selectedCategory response st =
     (let st1 = st\<lparr>loading := True, error := None\<rparr>;
          st2 = (case fetchComponents selectedCategory (search st1) response of
                   Inr data \<Rightarrow> st1\<lparr>items := data\<rparr>
                 | Inl err \<Rightarrow> st1\<lparr>error := Some ''Failed to load components. Please check API Key.''\<rparr>)
      in st2\<lparr>loading := False\<rparr>)"

text \<open>
  The list panel: \<open>loading ? spinner : error ? message and Retry button :
  items.length === 0 ? "No parts found." : the items\<close>. The Retry button calls \<open>loadItems\<close>.
\<close>

datatype Panel = Spinner | ErrorWithRetry string | NoPartsFound | Listing "ComponentData list"

definition listPanel :: "ListState \<Rightarrow> Panel" where
  "listPanel st =
     (if loading st then Spinner
      else (case error st of
              Some e \<Rightarrow> (if e \<noteq> [] then ErrorWithRetry e
                         else if length (items st) = 0 then NoPartsFound else Listing (items st))
            | None \<Rightarrow> if length (items st) = 0 then NoPartsFound else Listing (items st)))"

text \<open>
  JavaScript truthiness of a value of type \<open>string | undefined\<close>: \<open>undefined\<close> and the
  empty string are falsy. \<open>tmpl\<close> is the interpolation \<open>${s}\<close> of such a value.
\<close>

definition truthy :: "string option \<Rightarrow> bool" where
  "truthy s = (case s of None \<Rightarrow> False | Some v \<Rightarrow> v \<noteq> [])"

definition tmpl :: "string option \<Rightarrow> string" where
  "tmpl s = (case s of None \<Rightarrow> ''undefined'' | Some v \<Rightarrow> v)"

text \<open>
  Reading a property of \<open>undefined\<close> throws a \<open>TypeError\<close>; \<open>getCompatibilityWarning\<close> is
  called while the list is rendered and has no \<open>try\<close> around it.
\<close>

datatype js_error = TypeError

text \<open>
  \<open>const specs = part.specs || {}\<close>: the specs of the candidate, the empty object when
  the candidate has none.
\<close>

definition candidateSpecs :: "ComponentData \<Rightarrow> (string \<times> string) list" where
  "candidateSpecs part = (case specs part of None \<Rightarrow> [] | Some sp \<Rightarrow> sp)"

text \<open>
  \<open>build[t]?.specs.socket\<close>: the optional chaining guards the entry of the build only.
  When the entry is there and has no \<open>specs\<close>, \<open>.socket\<close> is read from \<open>undefined\<close>.
\<close>

definition installedSocket :: "BuildState \<Rightarrow> PartType \<Rightarrow> js_error + string option" where
  "installedSocket build t =
     (case map_of build t of
        None \<Rightarrow> Inr None
      | Some c \<Rightarrow>
          (case specs c of
             None \<Rightarrow> Inl TypeError
           | Some sp \<Rightarrow> Inr (map_of sp ''socket'')))"

text \<open>
  \<open>getCompatibilityWarning(part): string | null\<close>, the two \<open>if\<close> blocks in their order.
  \<^verbatim>\<open>
    const specs = part.specs || {};
    if (part.type === PartType.CPU && build[PartType.MOTHERBOARD]) {
        const moboSocket = build[PartType.MOTHERBOARD]?.specs.socket;
        const cpuSocket = specs.socket;
        if (moboSocket && cpuSocket && moboSocket !== cpuSocket)
            return `Socket Mismatch: ${cpuSocket} vs ${moboSocket}`;
    }
    if (part.type === PartType.MOTHERBOARD && build[PartType.CPU]) {
        const cpuSocket = build[PartType.CPU]?.specs.socket;
        const moboSocket = specs.socket;
        if (moboSocket && cpuSocket && moboSocket !== cpuSocket)
            return `Socket Mismatch: ${moboSocket} vs ${cpuSocket}`;
    }
    return null;
  \<close>
\<close>

definition cpuCheck :: "BuildState \<Rightarrow> ComponentData \<Rightarrow> js_error + string option" where
  "cpuCheck build part =
     (if type part = CPU \<and> map_of build MOTHERBOARD \<noteq> None then
        (case installedSocket build MOTHERBOARD of
           Inl err \<Rightarrow> Inl err
         | Inr moboSocket \<Rightarrow>
             (let cpuSocket = map_of (candidateSpecs part) ''socket''
              in if truthy moboSocket \<and> truthy cpuSocket \<and> moboSocket \<noteq> cpuSocket
                 then Inr (Some (''Socket Mismatch: '' @ tmpl cpuSocket @ '' vs '' @ tmpl moboSocket))
                 else Inr None))
      else Inr None)"

definition moboCheck :: "BuildState \<Rightarrow> ComponentData \<Rightarrow> js_error + string option" where
  "moboCheck build part =
     (if type part = MOTHERBOARD \<and> map_of build CPU \<noteq> None then
        (case installedSocket build CPU of
           Inl err \<Rightarrow> Inl err
         | Inr cpuSocket \<Rightarrow>
             (let moboSocket = map_of (candidateSpecs part) ''socket''
              in if truthy moboSocket \<and> truthy cpuSocket \<and> moboSocket \<noteq> cpuSocket
                 then Inr (Some (''Socket Mismatch: '' @ tmpl moboSocket @ '' vs '' @ tmpl cpuSocket))
                 else Inr None))
      else Inr None)"

definition getCompatibilityWarning ::
  "BuildState \<Rightarrow> ComponentData \<Rightarrow> js_error + string option" where
  "getCompatibilityWarning build part =
     (case cpuCheck build part of
        Inl err \<Rightarrow> Inl err
      | Inr (Some w) \<Rightarrow> Inr (Some w)
      | Inr None \<Rightarrow> moboCheck build part)"

section \<open>components/VisualBuilder.tsx\<close>

text \<open>
  An entry of \<open>COMPONENT_COORDS\<close>: \<open>{ x, y, width, height, class }\<close>. The fields \<open>x\<close>, \<open>y\<close>
  and \<open>class\<close> are named \<open>coord_x\<close>, \<open>coord_y\<close> and \<open>css_class\<close>. The table holds
  whole numbers with even widths and heights, and the values computed from it in this
  section are whole numbers below 1000, on which double arithmetic is exact: \<open>+\<close> and
  \<open>/\<close> are the exact operations here.
\<close>

record Coords =
  coord_x :: rat
  coord_y :: rat
  width :: rat
  height :: rat
  css_class :: string

definition COMPONENT_COORDS :: "PartType \<Rightarrow> Coords" where
  "COMPONENT_COORDS t =
     (case t of
        MOTHERBOARD \<Rightarrow> \<lparr>coord_x = 20, coord_y = 20, width = 380, height = 440, css_class = ''z-0 opacity-40''\<rparr>
      | CPU \<Rightarrow> \<lparr>coord_x = 168, coord_y = 110, width = 80, height = 80, css_class = ''z-30''\<rparr>
      | COOLER \<Rightarrow> \<lparr>coord_x = 168, coord_y = 110, width = 80, height = 80, css_class = ''z-40''\<rparr>
      | RAM \<Rightarrow> \<lparr>coord_x = 300, coord_y = 110, width = 32, height = 128, css_class = ''z-30''\<rparr>
      | GPU \<Rightarrow> \<lparr>coord_x = 64, coord_y = 240, width = 256, height = 128, css_class = ''z-30''\<rparr>
      | PSU \<Rightarrow> \<lparr>coord_x = 30, coord_y = 480, width = 160, height = 96, css_class = ''z-30''\<rparr>
      | STORAGE \<Rightarrow> \<lparr>coord_x = 380, coord_y = 420, width = 96, height = 64, css_class = ''z-30''\<rparr>
      | CASE \<Rightarrow> \<lparr>coord_x = 0, coord_y = 0, width = 500, height = 600, css_class = ''z-0 hidden''\<rparr>)"

text \<open>A point \<open>{ x, y }\<close>; the fields are named \<open>pt_x\<close> and \<open>pt_y\<close>.\<close>

record Point =
  pt_x :: rat
  pt_y :: rat

text \<open>
  The table \<open>centers\<close>, filled for every key of \<open>COMPONENT_COORDS\<close>:
  \<open>{ x: coords.x + coords.width / 2, y: coords.y + coords.height / 2 }\<close>.
\<close>

definition centers :: "PartType \<Rightarrow> Point" where
  "centers t =
     (let coords = COMPONENT_COORDS t
      in \<lparr>pt_x = coord_x coords + width coords / 2, pt_y = coord_y coords + height coords / 2\<rparr>)"

text \<open>
  An SVG path string \<open>M x y L x y ...\<close> is kept as the list of its commands; the numbers
  are not printed.
\<close>

datatype PathCmd = M Point | L Point

text \<open>
  \<open>getOrthoPath(start, end)\<close>:
  \<open>M start.x start.y L start.x midY L end.x midY L end.x end.y\<close> with
  \<open>midY = (start.y + end.y) / 2\<close>. The parameter \<open>end\<close> is named \<open>end'\<close>.
\<close>

definition getOrthoPath :: "Point \<Rightarrow> Point \<Rightarrow> PathCmd list" where
  "getOrthoPath start end' =
     (let midY = (pt_y start + pt_y end') / 2
      in [M \<lparr>pt_x = pt_x start, pt_y = pt_y start\<rparr>,
          L \<lparr>pt_x = pt_x start, pt_y = midY\<rparr>,
          L \<lparr>pt_x = pt_x end', pt_y = midY\<rparr>,
          L \<lparr>pt_x = pt_x end', pt_y = pt_y end'\<rparr>])"

text \<open>An element of \<open>connections\<close>: \<open>{ path, color, id, glow }\<close>; \<open>id\<close> is named \<open>conn_id\<close>.\<close>

record Connection =
  path :: "PathCmd list"
  color :: string
  conn_id :: string
  glow :: string

text \<open>
  The body of \<open>renderConnections\<close> up to the array \<open>connections\<close>: five guarded
  \<open>connections.push\<close> in this order. A stored component is an object, hence truthy, so
  \<open>build[t]\<close> is truthy exactly when the key is present.
\<close>

definition filled :: "BuildState \<Rightarrow> PartType \<Rightarrow> bool" where
  "filled build t = (map_of build t \<noteq> None)"

definition renderConnections :: "BuildState \<Rightarrow> Connection list" where
  "renderConnections build =
     (if filled build PSU \<and> filled build MOTHERBOARD
      then [\<lparr>path = getOrthoPath (centers PSU) (centers MOTHERBOARD),
             color = ''url(#grad-power)'', conn_id = ''psu-mobo'', glow = ''#22d3ee''\<rparr>]
      else []) @
     (if filled build PSU \<and> filled build GPU
      then [\<lparr>path = getOrthoPath (centers PSU) (centers GPU),
             color = ''url(#grad-power-gpu)'', conn_id = ''psu-gpu'', glow = ''#facc15''\<rparr>]
      else []) @
     (if filled build CPU \<and> filled build RAM
      then [\<lparr>path = [M \<lparr>pt_x = pt_x (centers CPU), pt_y = pt_y (centers CPU)\<rparr>,
                     L \<lparr>pt_x = pt_x (centers RAM), pt_y = pt_y (centers RAM)\<rparr>],
             color = ''url(#grad-data)'', conn_id = ''cpu-ram'', glow = ''#a78bfa''\<rparr>]
      else []) @
     (if filled build CPU \<and> filled build GPU
      then (let start = centers CPU; end' = centers GPU
            in [\<lparr>path = [M \<lparr>pt_x = pt_x start, pt_y = pt_y start\<rparr>,
                           L \<lparr>pt_x = pt_x start, pt_y = pt_y end'\<rparr>,
                           L \<lparr>pt_x = pt_x end', pt_y = pt_y end'\<rparr>],
                   color = ''url(#grad-data)'', conn_id = ''cpu-gpu'', glow = ''#a78bfa''\<rparr>])
      else []) @
     (if filled build MOTHERBOARD \<and> filled build STORAGE
      then (let start = \<lparr>pt_x = pt_x (centers MOTHERBOARD) + 60,
                          pt_y = pt_y (centers MOTHERBOARD) + 120\<rparr>;
                end' = centers STORAGE
            in [\<lparr>path = [M \<lparr>pt_x = pt_x start, pt_y = pt_y start\<rparr>,
                           L \<lparr>pt_x = pt_x end', pt_y = pt_y start\<rparr>,
                           L \<lparr>pt_x = pt_x end', pt_y = pt_y end'\<rparr>],
                   color = ''#34d399'', conn_id = ''mobo-sata'', glow = ''#34d399''\<rparr>])
      else [])"

text \<open>
  The two anchor points of a connection are the points of the first and of the last
  command of its path (the two ends of the drawn line).
\<close>

fun cmdPoint :: "PathCmd \<Rightarrow> Point" where
  "cmdPoint (M p) = p"
| "cmdPoint (L p) = p"

definition anchors :: "Connection \<Rightarrow> (Point \<times> Point) option" where
  "anchors c =
     (case path c of
        [] \<Rightarrow> None
      | cmd # rest \<Rightarrow> Some (cmdPoint cmd, cmdPoint (last (cmd # rest))))"

text \<open>
  The rule table of the specification (section 4.4), in its order: source slot, target
  slot, logical kind, and the \<open>id\<close> the code gives to the connection of that rule.
\<close>

datatype EdgeKind = Power | Data | StorageLink

definition RULE_TABLE :: "(PartType \<times> PartType \<times> EdgeKind \<times> string) list" where
  "RULE_TABLE =
     [ (PSU, MOTHERBOARD, Power, ''psu-mobo''),
       (PSU, GPU, Power, ''psu-gpu''),
       (CPU, RAM, Data, ''cpu-ram''),
       (CPU, GPU, Data, ''cpu-gpu''),
       (MOTHERBOARD, STORAGE, StorageLink, ''mobo-sata'') ]"

definition firedRules :: "BuildState \<Rightarrow> (PartType \<times> PartType \<times> EdgeKind \<times> string) list" where
  "firedRules build =
     filter (\<lambda>(src, tgt, kind, ident). filled build src \<and> filled build tgt) RULE_TABLE"

text \<open>
  The logical kind of a connection, read from its stroke: the gradients \<open>grad-power\<close>
  and \<open>grad-power-gpu\<close> are the power lines, \<open>grad-data\<close> the data bus, and the plain
  green \<open>#34d399\<close> the SATA link.
\<close>

definition kindOf :: "Connection \<Rightarrow> EdgeKind option" where
  "kindOf c =
     (if color c = ''url(#grad-power)'' \<or> color c = ''url(#grad-power-gpu)'' then Some Power
      else if color c = ''url(#grad-data)'' then Some Data
      else if color c = ''#34d399'' then Some StorageLink
      else None)"

section \<open>App.tsx\<close>

text \<open>
  The \<open>useState\<close> cells of \<open>App\<close>. \<open>analysis\<close> has the type \<open>CompatibilityResult | null\<close> and
  holds whatever \<open>checkCompatibility\<close> returned; \<open>JNull\<close> is \<open>null\<close>.
\<close>

record AppState =
  build :: BuildState
  activeCategory :: PartType
  analysis :: json
  analyzing :: bool
  showAnalysis :: bool

definition INITIAL_BUILD :: BuildState where
  "INITIAL_BUILD = []"

definition initialApp :: AppState where
  "initialApp =
     \<lparr> build = INITIAL_BUILD, activeCategory = CPU, analysis = JNull,
       analyzing = False, showAnalysis = False \<rparr>"

text \<open>
  \<open>activeParts = Object.values(build).filter(p => !!p)\<close>: the values in key-insertion
  order; every stored value is an object, so the filter keeps every entry.
  \<open>totalPrice\<close> is the \<open>reduce\<close> over \<open>activeParts\<close> from \<open>0\<close> with
  \<open>sum + (part.price || 0)\<close>: a left-to-right chain of double additions, where
  \<open>price || 0\<close> is \<open>0\<close> for the falsy number \<open>0\<close>.
  \<open>filledCount\<close> is \<open>activeParts.length\<close>, shown as "n/8 Selected".
\<close>

definition activeParts :: "BuildState \<Rightarrow> ComponentData list" where
  "activeParts b = map snd b"

definition totalPrice :: "BuildState \<Rightarrow> rat" where
  "totalPrice b =
     foldl (\<lambda>sum part. jsAdd sum (if price part = 0 then 0 else price part)) 0 (activeParts b)"

definition filledCount :: "BuildState \<Rightarrow> nat" where
  "filledCount b = length (activeParts b)"

text \<open>\<open>order.indexOf(t)\<close>: the first position of \<open>t\<close>, or \<open>-1\<close>.\<close>

fun indexOf :: "'a list \<Rightarrow> 'a \<Rightarrow> int" where
  "indexOf [] v = -1"
| "indexOf (u # us) v =
     (if u = v then 0 else (let i = indexOf us v in if i < 0 then -1 else i + 1))"

definition order :: "PartType list" where
  "order = [CPU, MOTHERBOARD, RAM, GPU, STORAGE, COOLER, PSU, CASE]"

text \<open>
  \<open>handleAddPart(part)\<close>. The spread \<open>{ ...prev, [part.type]: part }\<close> replaces the value
  of an existing key in place and appends a new key, which is \<open>AList.update\<close>.
  \<^verbatim>\<open>
    setBuild(prev => ({ ...prev, [part.type]: part }));
    const currentIndex = order.indexOf(part.type);
    if (currentIndex < order.length - 1) { setActiveCategory(order[currentIndex + 1]); }
  \<close>
\<close>

definition handleAddPart :: "ComponentData \<Rightarrow> AppState \<Rightarrow> AppState" where
  "handleAddPart part st =
     (let st1 = st\<lparr>build := AList.update (type part) part (build st)\<rparr>;
          currentIndex = indexOf order (type part)
      in if currentIndex < int (length order) - 1
         then st1\<lparr>activeCategory := order ! nat (currentIndex + 1)\<rparr>
         else st1)"

text \<open>\<open>handleRemovePart(type)\<close>: \<open>delete next[type]\<close> on a copy of the build.\<close>

definition handleRemovePart :: "PartType \<Rightarrow> AppState \<Rightarrow> AppState" where
  "handleRemovePart t st = st\<lparr>build := AList.delete t (build st)\<rparr>"

text \<open>
  \<open>runAnalysis\<close> is an \<open>async\<close> function: the part before the \<open>await\<close> runs at the click
  and sends the build of that moment to \<open>checkCompatibility\<close>; the part after it runs
  when the promise of that call is settled.
  \<^verbatim>\<open>
    setAnalyzing(true); setShowAnalysis(true);
    const result = await checkCompatibility(build);
    setAnalysis(result); setAnalyzing(false);
  \<close>
\<close>

definition runAnalysis_begin :: "AppState \<Rightarrow> AppState" where
  "runAnalysis_begin st = st\<lparr>analyzing := True, showAnalysis := True\<rparr>"

definition runAnalysis_resume :: "json \<Rightarrow> AppState \<Rightarrow> AppState" where
  "runAnalysis_resume result st = st\<lparr>analysis := result, analyzing := False\<rparr>"

text \<open>
  The application together with the calls of \<open>checkCompatibility\<close> that are still
  awaited, each with the build it was started on, oldest first.
\<close>

record World =
  app :: AppState
  inflight :: "BuildState list"

definition initialWorld :: World where
  "initialWorld = \<lparr> app = initialApp, inflight = [] \<rparr>"

text \<open>
  The events of the page: the click handlers of \<open>App\<close>, and the arrival of the advisory
  service's response to the awaited call number \<open>i\<close>.
\<close>

datatype Event =
    AddPart ComponentData
  | RemovePart PartType
  | ResetBuild
  | SelectCategory PartType
  | RunAnalysis
  | CloseAnalysis
  | Arrive nat "json ai_response"

fun step :: "World \<Rightarrow> Event \<Rightarrow> World" where
  "step w (AddPart part) = w\<lparr>app := handleAddPart part (app w)\<rparr>"
| "step w (RemovePart t) = w\<lparr>app := handleRemovePart t (app w)\<rparr>"
| "step w ResetBuild = w\<lparr>app := (app w)\<lparr>build := []\<rparr>\<rparr>"
| "step w (SelectCategory t) = w\<lparr>app := (app w)\<lparr>activeCategory := t\<rparr>\<rparr>"
| "step w RunAnalysis =
     w\<lparr>app := runAnalysis_begin (app w), inflight := inflight w @ [build (app w)]\<rparr>"
| "step w CloseAnalysis = w\<lparr>app := (app w)\<lparr>showAnalysis := False\<rparr>\<rparr>"
| "step w (Arrive i response) =
     (if i < length (inflight w)
      then w\<lparr>app := runAnalysis_resume (checkCompatibility (inflight w ! i) response) (app w),
             inflight := take i (inflight w) @ drop (Suc i) (inflight w)\<rparr>
      else w)"

definition run :: "Event list \<Rightarrow> World" where
  "run evs = foldl step initialWorld evs"

section \<open>Sample data\<close>

text \<open>
  Components and advisory results for the concrete instances below. The sockets are the
  ones the specification uses in its examples.
\<close>

definition samplePart ::
  "string \<Rightarrow> string \<Rightarrow> rat \<Rightarrow> PartType \<Rightarrow> (string \<times> string) list \<Rightarrow> ComponentData" where
  "samplePart i n p t sp =
     \<lparr> part_id = i, name = n, price = p,
       image_url = ''https://picsum.photos/seed/'' @ i @ ''/200/200'',
       type = t, specs = Some sp, rating = 4, retailer = ''Amazon.in'', url = ''#'' \<rparr>"

text \<open>Parts as the provider may send them: without the optional \<open>specs\<close> object.\<close>

definition moboNoSpecs :: ComponentData where
  "moboNoSpecs = (samplePart ''m3'' ''H610M'' 7000 MOTHERBOARD [])\<lparr>specs := None\<rparr>"

definition cpuNoSpecs :: ComponentData where
  "cpuNoSpecs = (samplePart ''c5'' ''Core i3'' 9000 CPU [])\<lparr>specs := None\<rparr>"

text \<open>Parts with the prices 18499.99, 4500.1 and 30000.2, as \<open>JSON.parse\<close> reads them.\<close>

definition cpuDecimal :: ComponentData where
  "cpuDecimal = samplePart ''c6'' ''Ryzen 5 7600'' (toDouble (1849999 / 100)) CPU []"

definition ramDecimal :: ComponentData where
  "ramDecimal = samplePart ''r2'' ''DDR5 16GB'' (toDouble (45001 / 10)) RAM []"

definition gpuDecimal :: ComponentData where
  "gpuDecimal = samplePart ''g2'' ''RTX 4060'' (toDouble (300002 / 10)) GPU []"

definition cpuAM5 :: ComponentData where
  "cpuAM5 = samplePart ''c1'' ''Ryzen 5 7600'' 18500 CPU [(''socket'', ''AM5'')]"

definition cpuNoSocket :: ComponentData where
  "cpuNoSocket = samplePart ''c2'' ''Ryzen 5 5600'' 12000 CPU [(''speed'', ''3.5 GHz'')]"

definition cpuEmptySocket :: ComponentData where
  "cpuEmptySocket = samplePart ''c3'' ''Core i5'' 15000 CPU [(''socket'', [])]"

definition moboLGA1700 :: ComponentData where
  "moboLGA1700 = samplePart ''m1'' ''B760M'' 11000 MOTHERBOARD [(''socket'', ''LGA1700'')]"

definition moboAM5 :: ComponentData where
  "moboAM5 = samplePart ''m2'' ''B650M'' 13000 MOTHERBOARD [(''socket'', ''AM5'')]"

definition ram16 :: ComponentData where
  "ram16 = samplePart ''r1'' ''DDR5 16GB'' 4500 RAM [(''capacity'', ''16GB'')]"

definition gpu4060 :: ComponentData where
  "gpu4060 = samplePart ''g1'' ''RTX 4060'' 30000 GPU []"

definition ssd1tb :: ComponentData where
  "ssd1tb = samplePart ''s1'' ''NVMe 1TB'' 6000 STORAGE []"

definition psu650 :: ComponentData where
  "psu650 = samplePart ''p1'' ''650W Bronze'' 5000 PSU [(''wattage'', ''650W'')]"

definition providerGpuItem :: ProviderItem where
  "providerGpuItem =
     \<lparr> item_id = ''x9'', item_name = ''RX 7600'', item_price = 26000, item_image = [],
       item_type = ''Graphics Card'', item_specs = Some [], item_rating = 4,
       item_retailer = ''Vedant'', item_url = ''#'' \<rparr>"

definition resultA :: json where
  "resultA = JObj
     [ (''isCompatible'', JBool True), (''issues'', JArr []),
       (''notes'', JArr [JStr ''Add a motherboard'']), (''estimatedWattage'', JNum 65),
       (''bottleneck'', JStr ''None''), (''aiScore'', JNum 80) ]"

definition resultB :: json where
  "resultB = JObj
     [ (''isCompatible'', JBool False),
       (''issues'', JArr [JStr ''CPU socket AM5 does not fit LGA1700'']),
       (''notes'', JArr []), (''estimatedWattage'', JNum 120),
       (''bottleneck'', JStr ''None''), (''aiScore'', JNum 20) ]"

section \<open>Invariant of the build\<close>

text \<open>
  The keys of the build object are pairwise different, and every component sits under
  the key of its own \<open>type\<close>.
\<close>

definition wellKeyed :: "BuildState \<Rightarrow> bool" where
  "wellKeyed b = (distinct (map fst b) \<and> (\<forall>(k, c) \<in> set b. type c = k))"

section \<open>Category navigation\<close>

lemma order_next:
  "activeCategory (handleAddPart p st) =
     (case type p of CPU \<Rightarrow> MOTHERBOARD | MOTHERBOARD \<Rightarrow> RAM | RAM \<Rightarrow> GPU | GPU \<Rightarrow> STORAGE
      | STORAGE \<Rightarrow> COOLER | COOLER \<Rightarrow> PSU | PSU \<Rightarrow> CASE | CASE \<Rightarrow> activeCategory st)"
  by (cases "type p") (simp_all add: handleAddPart_def order_def Let_def)

lemma indexOf_order:
  "indexOf order t = (case t of CPU \<Rightarrow> 0 | MOTHERBOARD \<Rightarrow> 1 | RAM \<Rightarrow> 2 | GPU \<Rightarrow> 3
      | STORAGE \<Rightarrow> 4 | COOLER \<Rightarrow> 5 | PSU \<Rightarrow> 6 | CASE \<Rightarrow> 7)"
  by (cases t) (simp_all add: order_def)

text \<open>
  Claim C6. The active category starts at the first element of the canonical order
  (processor, motherboard, memory, graphics card, storage, cooler, power supply, case).
  Adding a part whose category is not the last element of the order moves the active
  category to the element that follows the added category; adding a case leaves the
  active category as it was.
\<close>

theorem C6_auto_advance:
  "activeCategory initialApp = hd order
   \<and> order = [CPU, MOTHERBOARD, RAM, GPU, STORAGE, COOLER, PSU, CASE]
   \<and> (type p \<noteq> last order \<longrightarrow>
        order ! nat (indexOf order (type p)) = type p
        \<and> nat (indexOf order (type p)) + 1 < length order
        \<and> activeCategory (handleAddPart p st) = order ! (nat (indexOf order (type p)) + 1))
   \<and> (type p = last order \<longrightarrow> activeCategory (handleAddPart p st) = activeCategory st)"
proof -
  have a: "activeCategory initialApp = hd order"
    by (simp add: initialApp_def order_def)
  have b: "order = [CPU, MOTHERBOARD, RAM, GPU, STORAGE, COOLER, PSU, CASE]"
    by (simp add: order_def)
  have l: "last order = CASE"
    by (simp add: order_def)
  have c: "type p \<noteq> last order \<longrightarrow>
        order ! nat (indexOf order (type p)) = type p
        \<and> nat (indexOf order (type p)) + 1 < length order
        \<and> activeCategory (handleAddPart p st) = order ! (nat (indexOf order (type p)) + 1)"
    unfolding l
    by (cases "type p") (simp_all add: order_next indexOf_order, simp_all add: order_def)
  have d: "type p = last order \<longrightarrow> activeCategory (handleAddPart p st) = activeCategory st"
    by (simp add: l order_next)
  from a b c d show ?thesis by blast
qed

theorem C6_auto_advance_witness:
  "type moboAM5 \<noteq> last order
   \<and> activeCategory (handleAddPart moboAM5 initialApp) = RAM
   \<and> type (samplePart ''k1'' ''Mid Tower'' 3500 CASE []) = last order
   \<and> activeCategory (handleAddPart (samplePart ''k1'' ''Mid Tower'' 3500 CASE [])
        (initialApp\<lparr>activeCategory := CASE\<rparr>)) = CASE"
proof -
  have t: "type moboAM5 = MOTHERBOARD"
    by (simp add: moboAM5_def samplePart_def)
  have h1: "type moboAM5 \<noteq> last order"
    by (simp add: t order_def)
  have h2: "type (samplePart ''k1'' ''Mid Tower'' 3500 CASE []) = last order"
    by (simp add: samplePart_def order_def)
  from C6_auto_advance [of moboAM5 initialApp] h1
  have "activeCategory (handleAddPart moboAM5 initialApp)
          = order ! (nat (indexOf order (type moboAM5)) + 1)"
    by blast
  then have r1: "activeCategory (handleAddPart moboAM5 initialApp) = RAM"
    by (simp add: t indexOf_order) (simp add: order_def)
  from C6_auto_advance [of "samplePart ''k1'' ''Mid Tower'' 3500 CASE []"
      "initialApp\<lparr>activeCategory := CASE\<rparr>"] h2
  have r2: "activeCategory (handleAddPart (samplePart ''k1'' ''Mid Tower'' 3500 CASE [])
        (initialApp\<lparr>activeCategory := CASE\<rparr>)) = CASE"
    by simp
  from h1 h2 r1 r2 show ?thesis by blast
qed

section \<open>Double arithmetic\<close>

lemma pow2_pos: "0 < pow2 e"
  by (simp add: pow2_def)

lemma pow2_powi: "pow2 e = 2 powi e"
  by (simp add: pow2_def power_int_def field_simps)

lemma pow2_neg_nat: "pow2 (- int n) = 1 / 2 ^ n"
  by (simp add: pow2_powi power_int_minus field_simps)

lemma pow2_add: "pow2 (a + b) = pow2 a * pow2 b"
  by (simp add: pow2_powi power_int_add)

text \<open>\<open>floorLog2\<close> is the floor of the binary logarithm.\<close>

lemma floorLog2_bounds:
  assumes "0 < x"
  shows "pow2 (floorLog2 x) \<le> x \<and> x < pow2 (floorLog2 x + 1)"
proof -
  obtain p q where pq: "quotient_of x = (p, q)" by (cases "quotient_of x")
  then have q: "0 < q" by (rule quotient_of_denom_pos)
  from pq have x: "x = of_int p / of_int q" by (rule quotient_of_div)
  with assms q have p: "0 < p" by (simp add: zero_less_divide_iff)
  define a where "a = bitlen p"
  define b where "b = bitlen q"
  from p q have a1: "1 \<le> a" and b1: "1 \<le> b" by (auto simp: a_def b_def bitlen_alt_def)
  from bitlen_bounds [OF p] have pb: "2 ^ nat (a - 1) \<le> p" "p < 2 ^ nat a"
    by (simp_all add: a_def)
  from bitlen_bounds [OF q] have qb: "2 ^ nat (b - 1) \<le> q" "q < 2 ^ nat b"
    by (simp_all add: b_def)
  have pr: "pow2 (a - 1) \<le> of_int p" "of_int p < pow2 a"
  proof -
    from pb(1) have "(of_int (2 ^ nat (a - 1)) :: rat) \<le> of_int p" by (simp only: of_int_le_iff)
    then show "pow2 (a - 1) \<le> of_int p" using a1 by (simp add: pow2_def)
    from pb(2) have "(of_int p :: rat) < of_int (2 ^ nat a)" by (simp only: of_int_less_iff)
    then show "of_int p < pow2 a" using a1 by (simp add: pow2_def)
  qed
  have qr: "pow2 (b - 1) \<le> of_int q" "of_int q < pow2 b"
  proof -
    from qb(1) have "(of_int (2 ^ nat (b - 1)) :: rat) \<le> of_int q" by (simp only: of_int_le_iff)
    then show "pow2 (b - 1) \<le> of_int q" using b1 by (simp add: pow2_def)
    from qb(2) have "(of_int q :: rat) < of_int (2 ^ nat b)" by (simp only: of_int_less_iff)
    then show "of_int q < pow2 b" using b1 by (simp add: pow2_def)
  qed
  have qpos: "(0::rat) < of_int q" using q by simp
  have lower: "pow2 (a - b - 1) < x"
  proof -
    have "pow2 (a - b - 1) * of_int q < pow2 (a - b - 1) * pow2 b"
      using qr(2) pow2_pos by simp
    also have "\<dots> = pow2 (a - 1)" by (simp add: pow2_add [symmetric])
    also have "\<dots> \<le> of_int p" by (rule pr(1))
    finally show ?thesis using qpos by (simp add: x pos_less_divide_eq)
  qed
  have upper: "x < pow2 (a - b + 1)"
  proof -
    have "of_int p < pow2 a" by (rule pr(2))
    also have "\<dots> = pow2 (a - b + 1) * pow2 (b - 1)" by (simp add: pow2_add [symmetric])
    also have "\<dots> \<le> pow2 (a - b + 1) * of_int q"
      using qr(1) pow2_pos by simp
    finally show ?thesis using qpos by (simp add: x pos_divide_less_eq)
  qed
  show ?thesis
  proof (cases "pow2 (a - b) \<le> x")
    case True
    then have "floorLog2 x = a - b" by (simp add: floorLog2_def pq a_def b_def)
    with True upper show ?thesis by simp
  next
    case False
    then have "floorLog2 x = a - b - 1" by (simp add: floorLog2_def pq a_def b_def)
    with False lower show ?thesis by simp
  qed
qed

lemma floorLog2_int:
  assumes "0 < n"
  shows "floorLog2 (of_int n) = bitlen n - 1"
proof -
  have q: "quotient_of (of_int n :: rat) = (n, 1)" by simp
  have b1: "bitlen 1 = 1" by (simp add: bitlen_alt_def)
  from assms have ge: "1 \<le> bitlen n" by (auto simp: bitlen_alt_def)
  from bitlen_bounds [OF assms] have "2 ^ nat (bitlen n - 1) \<le> n" by simp
  then have "(of_int (2 ^ nat (bitlen n - 1)) :: rat) \<le> of_int n" by (simp only: of_int_le_iff)
  then have "pow2 (bitlen n - 1) \<le> of_int n" using ge by (simp add: pow2_def)
  then show ?thesis by (simp add: floorLog2_def q b1)
qed

lemma roundHalfEven_int: "roundHalfEven (of_int k) = k"
  by (simp add: roundHalfEven_def)

text \<open>Every integer from 0 to \<open>2 ^ 53\<close> is a double.\<close>

lemma toDouble_int:
  assumes "0 \<le> n" "n \<le> 2 ^ 53"
  shows "toDouble (of_int n) = of_int n"
proof (cases "n = 0")
  case True
  then show ?thesis by (simp add: toDouble_def)
next
  case False
  with assms have pos: "0 < n" by simp
  then have ge: "1 \<le> bitlen n" by (auto simp: bitlen_alt_def)
  have fl: "floorLog2 \<bar>of_int n\<bar> = bitlen n - 1"
    using pos floorLog2_int [OF pos] by simp
  have e: "max (floorLog2 \<bar>of_int n :: rat\<bar> - 52) (- 1074) = bitlen n - 53"
    using ge by (simp add: fl)
  have le54: "bitlen n \<le> 54"
  proof -
    from assms(2) have "n < 2 ^ nat 54" by simp
    then show ?thesis by (simp add: bitlen_le_iff_power)
  qed
  have "\<exists>k. \<bar>of_int n :: rat\<bar> / pow2 (bitlen n - 53) = of_int k"
  proof (cases "bitlen n \<le> 53")
    case True
    then have "pow2 (bitlen n - 53) = 1 / 2 ^ nat (53 - bitlen n)"
      using pow2_neg_nat [of "nat (53 - bitlen n)"] by simp
    then have "\<bar>of_int n :: rat\<bar> / pow2 (bitlen n - 53) = of_int (n * 2 ^ nat (53 - bitlen n))"
      using pos by simp
    then show ?thesis by blast
  next
    case False
    with le54 have b: "bitlen n = 54" by simp
    from bitlen_bounds [OF pos] b have "2 ^ 53 \<le> n" by simp
    with assms(2) have n: "n = 2 ^ 53" by simp
    have "\<bar>of_int n :: rat\<bar> / pow2 (bitlen n - 53) = of_int (2 ^ 52)"
      unfolding b by (simp add: n pow2_def)
    then show ?thesis by blast
  qed
  then obtain k where k: "\<bar>of_int n :: rat\<bar> / pow2 (bitlen n - 53) = of_int k" by blast
  have "toDouble (of_int n) = sgn (of_int n) * of_int k * pow2 (bitlen n - 53)"
    using False by (simp add: toDouble_def e k roundHalfEven_int Let_def)
  also have "\<dots> = of_int k * pow2 (bitlen n - 53)" using pos by simp
  also have "\<dots> = \<bar>of_int n\<bar> / pow2 (bitlen n - 53) * pow2 (bitlen n - 53)" by (simp only: k)
  also have "\<dots> = of_int n" using pos pow2_pos [of "bitlen n - 53"] by simp
  finally show ?thesis .
qed

lemma jsAdd_exact:
  assumes "a \<in> \<int>" "b \<in> \<int>" "0 \<le> a + b" "a + b \<le> 2 ^ 53"
  shows "jsAdd a b = a + b"
proof -
  from assms(1,2) have "a + b \<in> \<int>" by (rule Ints_add)
  then obtain n where n: "a + b = of_int n" by (rule Ints_cases)
  from assms(3) n have n0: "0 \<le> n" by simp
  from assms(4) n have "(of_int n :: rat) \<le> of_int (2 ^ 53)" by simp
  then have n1: "n \<le> 2 ^ 53" by (simp only: of_int_le_iff)
  show ?thesis unfolding jsAdd_def n by (rule toDouble_int [OF n0 n1])
qed

lemma decimal_prices:
  "toDouble (1849999 / 100) = 5085238529684931 / 274877906944"
  "toDouble (45001 / 10) = 2473956138077389 / 549755813888"
  "toDouble (300002 / 10) = 8246392183901389 / 274877906944"
  by code_simp+

lemma decimal_sums:
  "jsAdd (jsAdd (jsAdd 0 (5085238529684931 / 274877906944)) (2473956138077389 / 549755813888))
      (8246392183901389 / 274877906944) = 1821076097828127 / 34359738368"
  "jsAdd (jsAdd (jsAdd 0 (5085238529684931 / 274877906944)) (8246392183901389 / 274877906944))
      (2473956138077389 / 549755813888) = 7284304391312507 / 137438953472"
  by code_simp+

section \<open>Build state store\<close>

lemma set_update_cases:
  "e \<in> set (AList.update k v al) \<Longrightarrow> e = (k, v) \<or> e \<in> set al"
  by (induction al) (auto split: if_splits)

lemma wellKeyed_update: "wellKeyed b \<Longrightarrow> wellKeyed (AList.update (type p) p b)"
  unfolding wellKeyed_def
  by (auto simp: AList.distinct_update dest!: set_update_cases)

lemma wellKeyed_delete: "wellKeyed b \<Longrightarrow> wellKeyed (AList.delete t b)"
  unfolding wellKeyed_def
  by (auto simp: AList.distinct_delete) (auto simp: AList.delete_eq)

lemma build_handleAddPart: "build (handleAddPart p st) = AList.update (type p) p (build st)"
  by (simp add: handleAddPart_def Let_def)

lemma wellKeyed_step: "wellKeyed (build (app w)) \<Longrightarrow> wellKeyed (build (app (step w e)))"
proof (cases e)
  case (AddPart p)
  assume "wellKeyed (build (app w))"
  then show ?thesis using AddPart by (simp add: build_handleAddPart wellKeyed_update)
next
  case (RemovePart t)
  assume "wellKeyed (build (app w))"
  then show ?thesis using RemovePart by (simp add: handleRemovePart_def wellKeyed_delete)
next
  case ResetBuild
  then show ?thesis by (simp add: wellKeyed_def)
next
  case (Arrive i r)
  assume "wellKeyed (build (app w))"
  then show ?thesis using Arrive by (simp add: runAnalysis_resume_def)
qed (simp_all add: runAnalysis_begin_def)

lemma wellKeyed_foldl:
  "wellKeyed (build (app w)) \<Longrightarrow> wellKeyed (build (app (foldl step w evs)))"
  by (induction evs arbitrary: w) (simp_all add: wellKeyed_step)

lemma wellKeyed_run: "wellKeyed (build (app (run evs)))"
  unfolding run_def
  by (rule wellKeyed_foldl)
     (simp add: initialWorld_def initialApp_def INITIAL_BUILD_def wellKeyed_def)

lemma foldl_exact:
  assumes "\<forall>c \<in> set cs. price c \<in> \<int> \<and> 0 \<le> price c"
    and "acc \<in> \<int>" and "0 \<le> acc" and "acc + sum_list (map price cs) \<le> 2 ^ 53"
  shows "foldl (\<lambda>sum part. jsAdd sum (if price part = 0 then 0 else price part)) acc cs
           = acc + sum_list (map price cs)"
  using assms
proof (induction cs arbitrary: acc)
  case Nil
  then show ?case by simp
next
  case (Cons c cs)
  from Cons.prems(1) have pc: "price c \<in> \<int>" "0 \<le> price c"
    and rest: "\<forall>c \<in> set cs. price c \<in> \<int> \<and> 0 \<le> price c" by simp_all
  from rest have nn: "0 \<le> sum_list (map price cs)" by (intro sum_list_nonneg) auto
  have s0: "0 \<le> acc + price c" using Cons.prems(3) pc(2) by simp
  have s1: "acc + price c \<le> 2 ^ 53" using Cons.prems(4) nn by simp
  have st: "jsAdd acc (price c) = acc + price c"
    by (rule jsAdd_exact [OF Cons.prems(2) pc(1) s0 s1])
  have i: "acc + price c \<in> \<int>" using Cons.prems(2) pc(1) by (rule Ints_add)
  have b: "acc + price c + sum_list (map price cs) \<le> 2 ^ 53" using Cons.prems(4) by simp
  from Cons.IH [OF rest i s0 b] show ?case by (simp add: st add.assoc)
qed

lemma sum_list_alist:
  assumes "distinct (map fst b)"
  shows "sum_list (map (\<lambda>e. g (snd e)) b) = (\<Sum>k\<in>dom (map_of b). g (the (map_of b k)))"
proof -
  have "map (\<lambda>e. g (snd e)) b = map (\<lambda>k. g (the (map_of b k))) (map fst b)"
  proof -
    have "g (snd e) = g (the (map_of b (fst e)))" if "e \<in> set b" for e
    proof -
      from that have "(fst e, snd e) \<in> set b" by simp
      with assms have "map_of b (fst e) = Some (snd e)" by (rule map_of_is_SomeI)
      then show ?thesis by simp
    qed
    then show ?thesis by (simp add: comp_def cong: map_cong)
  qed
  then have "sum_list (map (\<lambda>e. g (snd e)) b)
      = sum_list (map (\<lambda>k. g (the (map_of b k))) (map fst b))"
    by (rule arg_cong)
  also have "\<dots> = (\<Sum>k\<in>set (map fst b). g (the (map_of b k)))"
    using assms by (rule sum_list_distinct_conv_sum_set)
  also have "set (map fst b) = dom (map_of b)"
    by (simp add: dom_map_of_conv_image_fst)
  finally show ?thesis .
qed

lemma totalPrice_exact:
  assumes wk: "wellKeyed b"
    and whole: "\<forall>t c. map_of b t = Some c \<longrightarrow> price c \<in> \<int> \<and> 0 \<le> price c"
    and bound: "(\<Sum>k\<in>dom (map_of b). price (the (map_of b k))) \<le> 2 ^ 53"
  shows "totalPrice b = (\<Sum>k\<in>dom (map_of b). price (the (map_of b k)))"
proof -
  from wk have d: "distinct (map fst b)" by (simp add: wellKeyed_def)
  have s: "sum_list (map price (map snd b)) = (\<Sum>k\<in>dom (map_of b). price (the (map_of b k)))"
    using sum_list_alist [OF d, of price] by (simp add: comp_def)
  have e: "\<forall>c \<in> set (map snd b). price c \<in> \<int> \<and> 0 \<le> price c"
  proof
    fix c assume "c \<in> set (map snd b)"
    then obtain t where "(t, c) \<in> set b" by auto
    with d have "map_of b t = Some c" by (rule map_of_is_SomeI)
    with whole show "price c \<in> \<int> \<and> 0 \<le> price c" by blast
  qed
  have bd: "0 + sum_list (map price (map snd b)) \<le> 2 ^ 53"
    unfolding s using bound by simp
  have "totalPrice b = 0 + sum_list (map price (map snd b))"
    unfolding totalPrice_def activeParts_def
    by (rule foldl_exact [OF e _ _ bd]) simp_all
  then show ?thesis unfolding s by simp
qed

lemma filledCount_occupancy: "wellKeyed b \<Longrightarrow> filledCount b = card (dom (map_of b))"
proof -
  assume "wellKeyed b"
  then have "distinct (map fst b)" by (simp add: wellKeyed_def)
  then have "card (set (map fst b)) = length (map fst b)" by (rule distinct_card)
  then show ?thesis
    by (simp add: filledCount_def activeParts_def dom_map_of_conv_image_fst)
qed

lemma filled_dom: "{t. filled b t} = dom (map_of b)"
  by (auto simp: filled_def)

lemma run_cpu_ram:
  "build (app (run [AddPart cpuAM5, AddPart ram16])) = [(CPU, cpuAM5), (RAM, ram16)]"
  by (simp add: run_def initialWorld_def initialApp_def INITIAL_BUILD_def
      build_handleAddPart cpuAM5_def ram16_def samplePart_def)

lemma run_ram_gpu_cpu:
  "build (app (run [AddPart ram16, AddPart gpu4060, RemovePart GPU, AddPart cpuAM5]))
     = [(RAM, ram16), (CPU, cpuAM5)]"
  by (simp add: run_def initialWorld_def initialApp_def INITIAL_BUILD_def handleRemovePart_def
      build_handleAddPart cpuAM5_def ram16_def gpu4060_def samplePart_def)

lemma run_decimal_ram_first:
  "build (app (run [AddPart cpuDecimal, AddPart ramDecimal, AddPart gpuDecimal]))
     = [(CPU, cpuDecimal), (RAM, ramDecimal), (GPU, gpuDecimal)]"
  by (simp add: run_def initialWorld_def initialApp_def INITIAL_BUILD_def
      build_handleAddPart cpuDecimal_def ramDecimal_def gpuDecimal_def samplePart_def)

lemma run_decimal_gpu_first:
  "build (app (run [AddPart cpuDecimal, AddPart gpuDecimal, AddPart ramDecimal]))
     = [(CPU, cpuDecimal), (GPU, gpuDecimal), (RAM, ramDecimal)]"
  by (simp add: run_def initialWorld_def initialApp_def INITIAL_BUILD_def
      build_handleAddPart cpuDecimal_def ramDecimal_def gpuDecimal_def samplePart_def)

lemma decimal_part_prices:
  "price cpuDecimal = 5085238529684931 / 274877906944"
  "price ramDecimal = 2473956138077389 / 549755813888"
  "price gpuDecimal = 8246392183901389 / 274877906944"
  unfolding cpuDecimal_def ramDecimal_def gpuDecimal_def samplePart_def decimal_prices
  by simp_all

text \<open>
  Claim C5, as amended. After every sequence of page events (adding and removing parts
  among them), the number of selected components is the number of occupied categories,
  and two sequences that end in the same occupancy have the same count; the total of the
  empty build is 0. When every price in the build is a non-negative whole number and the
  prices sum to at most \<open>2 ^ 53\<close>, the total is the exact sum of the prices of the
  occupied categories, and every sequence that ends in the same occupancy has the same
  total.
\<close>

theorem C5_derived_totals:
  fixes evs evs' :: "Event list"
  defines "b \<equiv> build (app (run evs))" and "b' \<equiv> build (app (run evs'))"
  shows "filledCount b = card {t. filled b t}
     \<and> totalPrice INITIAL_BUILD = 0
     \<and> (map_of b = map_of b' \<longrightarrow> filledCount b = filledCount b')
     \<and> ((\<forall>t c. map_of b t = Some c \<longrightarrow> price c \<in> \<int> \<and> 0 \<le> price c)
          \<and> (\<Sum>t \<in> {t. filled b t}. price (the (map_of b t))) \<le> 2 ^ 53
        \<longrightarrow> totalPrice b = (\<Sum>t \<in> {t. filled b t}. price (the (map_of b t)))
            \<and> (map_of b = map_of b' \<longrightarrow> totalPrice b' = totalPrice b))"
proof -
  have wk: "wellKeyed b" "wellKeyed b'"
    by (simp_all add: b_def b'_def wellKeyed_run)
  have 1: "filledCount b = card {t. filled b t}"
    using wk by (simp add: filled_dom filledCount_occupancy)
  have 2: "totalPrice INITIAL_BUILD = 0"
    by (simp add: totalPrice_def activeParts_def INITIAL_BUILD_def)
  have 3: "map_of b = map_of b' \<longrightarrow> filledCount b = filledCount b'"
    using wk by (simp add: filledCount_occupancy)
  have 4: "totalPrice b = (\<Sum>t \<in> {t. filled b t}. price (the (map_of b t)))
            \<and> (map_of b = map_of b' \<longrightarrow> totalPrice b' = totalPrice b)"
    if whole: "\<forall>t c. map_of b t = Some c \<longrightarrow> price c \<in> \<int> \<and> 0 \<le> price c"
      and bound: "(\<Sum>t \<in> {t. filled b t}. price (the (map_of b t))) \<le> 2 ^ 53"
  proof -
    from bound have bd: "(\<Sum>k\<in>dom (map_of b). price (the (map_of b k))) \<le> 2 ^ 53"
      by (simp add: filled_dom)
    have t: "totalPrice b = (\<Sum>k\<in>dom (map_of b). price (the (map_of b k)))"
      using wk(1) whole bd by (rule totalPrice_exact)
    have "totalPrice b' = totalPrice b" if same: "map_of b = map_of b'"
    proof -
      from whole same
      have whole': "\<forall>t c. map_of b' t = Some c \<longrightarrow> price c \<in> \<int> \<and> 0 \<le> price c" by simp
      from bd same
      have bd': "(\<Sum>k\<in>dom (map_of b'). price (the (map_of b' k))) \<le> 2 ^ 53" by simp
      have "totalPrice b' = (\<Sum>k\<in>dom (map_of b'). price (the (map_of b' k)))"
        using wk(2) whole' bd' by (rule totalPrice_exact)
      with t same show ?thesis by simp
    qed
    with t show ?thesis by (simp add: filled_dom)
  qed
  from 1 2 3 4 show ?thesis by blast
qed

theorem C5_derived_totals_witness:
  "map_of (build (app (run [AddPart cpuAM5, AddPart ram16])))
     = map_of (build (app (run [AddPart ram16, AddPart gpu4060, RemovePart GPU, AddPart cpuAM5])))
   \<and> price cpuAM5 = 18500 \<and> price ram16 = 4500
   \<and> (18500 :: rat) + 4500 \<le> 2 ^ 53
   \<and> totalPrice (build (app (run [AddPart cpuAM5, AddPart ram16]))) = 23000
   \<and> totalPrice (build (app (run [AddPart ram16, AddPart gpu4060, RemovePart GPU, AddPart cpuAM5])))
       = 23000
   \<and> filledCount (build (app (run [AddPart ram16, AddPart gpu4060, RemovePart GPU, AddPart cpuAM5])))
       = 2"
proof -
  have occ: "map_of (build (app (run [AddPart cpuAM5, AddPart ram16])))
     = map_of (build (app (run [AddPart ram16, AddPart gpu4060, RemovePart GPU, AddPart cpuAM5])))"
    unfolding run_cpu_ram run_ram_gpu_cpu by (rule ext) simp
  have pr: "price cpuAM5 = 18500" "price ram16 = 4500"
    by (simp_all add: cpuAM5_def ram16_def samplePart_def)
  have whole: "\<forall>t c. map_of (build (app (run [AddPart cpuAM5, AddPart ram16]))) t = Some c
                 \<longrightarrow> price c \<in> \<int> \<and> 0 \<le> price c"
    unfolding run_cpu_ram by (auto simp: pr split: if_splits)
  have f: "{t. filled [(CPU, cpuAM5), (RAM, ram16)] t} = {CPU, RAM}"
    by (auto simp: filled_def split: if_splits)
  have s: "(\<Sum>t \<in> {t. filled (build (app (run [AddPart cpuAM5, AddPart ram16]))) t}.
              price (the (map_of (build (app (run [AddPart cpuAM5, AddPart ram16]))) t))) = 23000"
    unfolding run_cpu_ram f by (simp add: pr)
  have c: "filledCount (build (app (run [AddPart cpuAM5, AddPart ram16]))) = 2"
    unfolding run_cpu_ram by (simp add: filledCount_def activeParts_def)
  note c5 = C5_derived_totals [of "[AddPart cpuAM5, AddPart ram16]"
      "[AddPart ram16, AddPart gpu4060, RemovePart GPU, AddPart cpuAM5]"]
  from c5 occ c
  have n: "filledCount (build (app (run [AddPart ram16, AddPart gpu4060, RemovePart GPU,
              AddPart cpuAM5]))) = 2"
    by simp
  from c5 whole s occ
  have t: "totalPrice (build (app (run [AddPart cpuAM5, AddPart ram16]))) = 23000
     \<and> totalPrice (build (app (run [AddPart ram16, AddPart gpu4060, RemovePart GPU,
              AddPart cpuAM5]))) = 23000"
    by simp
  from occ pr n t show ?thesis by simp
qed

text \<open>
  The claim as stated fails for prices that are not whole numbers. The processor at
  18499.99, the memory at 4500.1 and the graphics card at 30000.2 are added in two
  orders; both builds have the same occupancy, the totals are two different doubles
  (53000.29000000001 and 53000.29), and the first is not the sum of the three prices.
\<close>

theorem C5_counterexample:
  "map_of (build (app (run [AddPart cpuDecimal, AddPart ramDecimal, AddPart gpuDecimal])))
     = map_of (build (app (run [AddPart cpuDecimal, AddPart gpuDecimal, AddPart ramDecimal])))
   \<and> totalPrice (build (app (run [AddPart cpuDecimal, AddPart ramDecimal, AddPart gpuDecimal])))
       = 1821076097828127 / 34359738368
   \<and> totalPrice (build (app (run [AddPart cpuDecimal, AddPart gpuDecimal, AddPart ramDecimal])))
       = 7284304391312507 / 137438953472
   \<and> totalPrice (build (app (run [AddPart cpuDecimal, AddPart ramDecimal, AddPart gpuDecimal])))
       \<noteq> totalPrice (build (app (run [AddPart cpuDecimal, AddPart gpuDecimal, AddPart ramDecimal])))
   \<and> price cpuDecimal + price ramDecimal + price gpuDecimal = 29137217565250029 / 549755813888
   \<and> totalPrice (build (app (run [AddPart cpuDecimal, AddPart ramDecimal, AddPart gpuDecimal])))
       \<noteq> price cpuDecimal + price ramDecimal + price gpuDecimal"
proof -
  have occ: "map_of (build (app (run [AddPart cpuDecimal, AddPart ramDecimal, AddPart gpuDecimal])))
     = map_of (build (app (run [AddPart cpuDecimal, AddPart gpuDecimal, AddPart ramDecimal])))"
    unfolding run_decimal_ram_first run_decimal_gpu_first by (rule ext) simp
  have t1: "totalPrice (build (app (run [AddPart cpuDecimal, AddPart ramDecimal, AddPart gpuDecimal])))
       = 1821076097828127 / 34359738368"
    unfolding run_decimal_ram_first
    by (simp add: totalPrice_def activeParts_def decimal_part_prices decimal_sums)
  have t2: "totalPrice (build (app (run [AddPart cpuDecimal, AddPart gpuDecimal, AddPart ramDecimal])))
       = 7284304391312507 / 137438953472"
    unfolding run_decimal_gpu_first
    by (simp add: totalPrice_def activeParts_def decimal_part_prices decimal_sums)
  have s: "price cpuDecimal + price ramDecimal + price gpuDecimal
      = 29137217565250029 / 549755813888"
    by (simp add: decimal_part_prices)
  have d1: "(1821076097828127 / 34359738368 :: rat) \<noteq> 7284304391312507 / 137438953472"
    by simp
  have d2: "(1821076097828127 / 34359738368 :: rat) \<noteq> 29137217565250029 / 549755813888"
    by simp
  from occ t1 t2 s d1 d2 show ?thesis by simp
qed

section \<open>Catalog ingestion and the category key\<close>

lemma fetchComponents_fulfilled:
  "\<exists>data. fetchComponents category query response = Inr data"
  by (cases response) (simp_all add: fetchComponents_def)

text \<open>
  Claim C8. Whatever the provider answers, the catalog fetch is fulfilled with a list
  whose every record has its \<open>type\<close> set to the requested category. Adding a part
  stores it under the key of its own \<open>type\<close> and adds no other entry. Hence in every
  reachable state of the page each stored record sits under the key of its own \<open>type\<close>.
\<close>

theorem C8_category_key_invariant:
  "(\<exists>data. fetchComponents category query response = Inr data
             \<and> (\<forall>c \<in> set data. type c = category))
   \<and> (\<forall>(k, c) \<in> set (build (app (step w (AddPart p)))).
         (k, c) \<in> set (build (app w)) \<or> (k = type c \<and> c = p))
   \<and> (\<forall>(k, c) \<in> set (build (app (run evs))). type c = k)"
proof -
  have 1: "\<exists>data. fetchComponents category query response = Inr data
             \<and> (\<forall>c \<in> set data. type c = category)"
    by (cases response) (simp_all add: fetchComponents_def normalizeItem_def)
  have 2: "\<forall>(k, c) \<in> set (build (app (step w (AddPart p)))).
         (k, c) \<in> set (build (app w)) \<or> (k = type c \<and> c = p)"
    by (auto simp: build_handleAddPart dest!: set_update_cases)
  have 3: "\<forall>(k, c) \<in> set (build (app (run evs))). type c = k"
    using wellKeyed_run [of evs] by (simp add: wellKeyed_def)
  from 1 2 3 show ?thesis by blast
qed

theorem C8_category_key_invariant_witness:
  "fetchComponents CPU ''ryzen'' (Parsed [providerGpuItem])
     = Inr [samplePart ''x9'' ''RX 7600'' 26000 CPU []\<lparr>retailer := ''Vedant''\<rparr>]
   \<and> item_type providerGpuItem = ''Graphics Card''
   \<and> type (samplePart ''x9'' ''RX 7600'' 26000 CPU []\<lparr>retailer := ''Vedant''\<rparr>) = CPU
   \<and> build (app (run [AddPart cpuAM5, AddPart ram16])) = [(CPU, cpuAM5), (RAM, ram16)]
   \<and> type cpuAM5 = CPU
   \<and> type ram16 = RAM"
proof -
  have f: "fetchComponents CPU ''ryzen'' (Parsed [providerGpuItem])
     = Inr [samplePart ''x9'' ''RX 7600'' 26000 CPU []\<lparr>retailer := ''Vedant''\<rparr>]"
    by (simp add: fetchComponents_def normalizeItem_def providerGpuItem_def samplePart_def)
  have t: "item_type providerGpuItem = ''Graphics Card''"
    by (simp add: providerGpuItem_def)
  from C8_category_key_invariant [of CPU "''ryzen''" "Parsed [providerGpuItem]" initialWorld cpuAM5
      "[AddPart cpuAM5, AddPart ram16]"]
  have "type (samplePart ''x9'' ''RX 7600'' 26000 CPU []\<lparr>retailer := ''Vedant''\<rparr>) = CPU
      \<and> type cpuAM5 = CPU \<and> type ram16 = RAM"
    unfolding f run_cpu_ram by simp
  with f t run_cpu_ram show ?thesis by blast
qed

section \<open>Connection edges\<close>

lemma centers_values:
  "centers PSU = \<lparr>pt_x = 110, pt_y = 528\<rparr>"
  "centers MOTHERBOARD = \<lparr>pt_x = 210, pt_y = 240\<rparr>"
  "centers GPU = \<lparr>pt_x = 192, pt_y = 304\<rparr>"
  "centers CPU = \<lparr>pt_x = 208, pt_y = 150\<rparr>"
  "centers RAM = \<lparr>pt_x = 316, pt_y = 174\<rparr>"
  "centers STORAGE = \<lparr>pt_x = 428, pt_y = 452\<rparr>"
  by (simp_all add: centers_def COMPONENT_COORDS_def Let_def)

text \<open>The centres of the slots are doubles: rounding leaves them as they are.\<close>

lemma centers_are_doubles:
  "toDouble (pt_x (centers t)) = pt_x (centers t) \<and> toDouble (pt_y (centers t)) = pt_y (centers t)"
proof -
  have d: "toDouble (of_int n) = of_int n" if "0 \<le> n" "n \<le> 600" for n
    using that by (intro toDouble_int) simp_all
  have "\<exists>m n. 0 \<le> m \<and> m \<le> 600 \<and> 0 \<le> n \<and> n \<le> 600
           \<and> pt_x (centers t) = of_int m \<and> pt_y (centers t) = of_int n"
  proof (cases t)
    case CPU
    have "pt_x (centers CPU) = of_int 208 \<and> pt_y (centers CPU) = of_int 150"
      by (simp add: centers_def COMPONENT_COORDS_def Let_def)
    then show ?thesis unfolding CPU by (intro exI [of _ 208] exI [of _ 150]) simp
  next
    case MOTHERBOARD
    have "pt_x (centers MOTHERBOARD) = of_int 210 \<and> pt_y (centers MOTHERBOARD) = of_int 240"
      by (simp add: centers_def COMPONENT_COORDS_def Let_def)
    then show ?thesis unfolding MOTHERBOARD by (intro exI [of _ 210] exI [of _ 240]) simp
  next
    case RAM
    have "pt_x (centers RAM) = of_int 316 \<and> pt_y (centers RAM) = of_int 174"
      by (simp add: centers_def COMPONENT_COORDS_def Let_def)
    then show ?thesis unfolding RAM by (intro exI [of _ 316] exI [of _ 174]) simp
  next
    case GPU
    have "pt_x (centers GPU) = of_int 192 \<and> pt_y (centers GPU) = of_int 304"
      by (simp add: centers_def COMPONENT_COORDS_def Let_def)
    then show ?thesis unfolding GPU by (intro exI [of _ 192] exI [of _ 304]) simp
  next
    case STORAGE
    have "pt_x (centers STORAGE) = of_int 428 \<and> pt_y (centers STORAGE) = of_int 452"
      by (simp add: centers_def COMPONENT_COORDS_def Let_def)
    then show ?thesis unfolding STORAGE by (intro exI [of _ 428] exI [of _ 452]) simp
  next
    case PSU
    have "pt_x (centers PSU) = of_int 110 \<and> pt_y (centers PSU) = of_int 528"
      by (simp add: centers_def COMPONENT_COORDS_def Let_def)
    then show ?thesis unfolding PSU by (intro exI [of _ 110] exI [of _ 528]) simp
  next
    case CASE
    have "pt_x (centers CASE) = of_int 250 \<and> pt_y (centers CASE) = of_int 300"
      by (simp add: centers_def COMPONENT_COORDS_def Let_def)
    then show ?thesis unfolding CASE by (intro exI [of _ 250] exI [of _ 300]) simp
  next
    case COOLER
    have "pt_x (centers COOLER) = of_int 208 \<and> pt_y (centers COOLER) = of_int 150"
      by (simp add: centers_def COMPONENT_COORDS_def Let_def)
    then show ?thesis unfolding COOLER by (intro exI [of _ 208] exI [of _ 150]) simp
  qed
  then obtain m n where "0 \<le> m" "m \<le> 600" "0 \<le> n" "n \<le> 600"
    "pt_x (centers t) = of_int m" "pt_y (centers t) = of_int n" by blast
  then show ?thesis by (simp add: d)
qed

lemma firedRules_unfold:
  "firedRules b =
     (if filled b PSU \<and> filled b MOTHERBOARD then [(PSU, MOTHERBOARD, Power, ''psu-mobo'')] else []) @
     (if filled b PSU \<and> filled b GPU then [(PSU, GPU, Power, ''psu-gpu'')] else []) @
     (if filled b CPU \<and> filled b RAM then [(CPU, RAM, Data, ''cpu-ram'')] else []) @
     (if filled b CPU \<and> filled b GPU then [(CPU, GPU, Data, ''cpu-gpu'')] else []) @
     (if filled b MOTHERBOARD \<and> filled b STORAGE
      then [(MOTHERBOARD, STORAGE, StorageLink, ''mobo-sata'')] else [])"
  by (simp add: firedRules_def RULE_TABLE_def)

lemma conn_ids: "map conn_id (renderConnections b) = map (\<lambda>(src, tgt, kind, ident). ident) (firedRules b)"
  by (simp add: firedRules_unfold renderConnections_def Let_def)

lemma conn_kinds: "map kindOf (renderConnections b) = map (\<lambda>(src, tgt, kind, ident). Some kind) (firedRules b)"
  by (simp add: firedRules_unfold renderConnections_def Let_def kindOf_def)

lemma rule_iff:
  "(src, tgt, kind, ident) \<in> set RULE_TABLE \<Longrightarrow>
     (ident \<in> conn_id ` set (renderConnections b)) = (filled b src \<and> filled b tgt)"
proof -
  assume r: "(src, tgt, kind, ident) \<in> set RULE_TABLE"
  have "conn_id ` set (renderConnections b) = set (map conn_id (renderConnections b))" by simp
  also have "\<dots> = set (map (\<lambda>(src, tgt, kind, ident). ident) (firedRules b))" by (simp only: conn_ids)
  finally have e: "conn_id ` set (renderConnections b) = set (map (\<lambda>(src, tgt, kind, ident). ident) (firedRules b))" .
  from r show ?thesis unfolding e
    by (auto simp: firedRules_def RULE_TABLE_def)
qed

lemma only_cpu_ram:
  assumes "{t. filled b t} = {CPU, RAM}"
  shows "firedRules b = [(CPU, RAM, Data, ''cpu-ram'')]"
proof -
  from assms have "filled b t = (t = CPU \<or> t = RAM)" for t by auto
  then show ?thesis by (simp add: firedRules_unfold)
qed

text \<open>
  Claim C1. The connections drawn for a build are, in order, the rules of the table of
  section 4.4 whose two slots are both filled, each with the kind of its rule; a rule
  has a connection exactly when both its slots are filled. A build with only a processor
  and a memory module has exactly one connection, \<open>cpu-ram\<close> of kind data, and adding
  a power supply to it changes nothing. The empty build has no connection.
\<close>

theorem C1_edges_match_rule_table:
  "map conn_id (renderConnections b) = map (\<lambda>(src, tgt, kind, ident). ident) (firedRules b)
   \<and> map kindOf (renderConnections b) = map (\<lambda>(src, tgt, kind, ident). Some kind) (firedRules b)
   \<and> (\<forall>(src, tgt, kind, ident) \<in> set RULE_TABLE.
         (ident \<in> conn_id ` set (renderConnections b)) = (filled b src \<and> filled b tgt))
   \<and> ({t. filled b t} = {CPU, RAM} \<longrightarrow>
         map conn_id (renderConnections b) = [''cpu-ram'']
         \<and> map kindOf (renderConnections b) = [Some Data]
         \<and> (type p = PSU \<longrightarrow>
              renderConnections (build (handleAddPart p (st\<lparr>build := b\<rparr>))) = renderConnections b))
   \<and> renderConnections INITIAL_BUILD = []"
proof -
  have 3: "\<forall>(src, tgt, kind, ident) \<in> set RULE_TABLE.
         (ident \<in> conn_id ` set (renderConnections b)) = (filled b src \<and> filled b tgt)"
    using rule_iff by blast
  have 4: "map conn_id (renderConnections b) = [''cpu-ram'']
         \<and> map kindOf (renderConnections b) = [Some Data]
         \<and> (type p = PSU \<longrightarrow>
              renderConnections (build (handleAddPart p (st\<lparr>build := b\<rparr>))) = renderConnections b)"
    if h: "{t. filled b t} = {CPU, RAM}"
  proof -
    have f: "filled b t = (t = CPU \<or> t = RAM)" for t using h by auto
    have a: "map conn_id (renderConnections b) = [''cpu-ram'']"
      by (simp add: conn_ids only_cpu_ram [OF h])
    have k: "map kindOf (renderConnections b) = [Some Data]"
      by (simp add: conn_kinds only_cpu_ram [OF h])
    have c: "renderConnections (build (handleAddPart p (st\<lparr>build := b\<rparr>))) = renderConnections b"
      if "type p = PSU"
    proof -
      have "filled (AList.update PSU p b) t = (t = CPU \<or> t = RAM \<or> t = PSU)" for t
        using f [of t] by (auto simp: filled_def AList.update_conv')
      then show ?thesis using f that
        by (simp add: build_handleAddPart renderConnections_def)
    qed
    from a k c show ?thesis by blast
  qed
  have 5: "renderConnections INITIAL_BUILD = []"
    by (simp add: renderConnections_def INITIAL_BUILD_def filled_def)
  from conn_ids conn_kinds 3 4 5 show ?thesis by blast
qed

theorem C1_edges_match_rule_table_witness:
  "{t. filled [(CPU, cpuAM5), (RAM, ram16)] t} = {CPU, RAM}
   \<and> type psu650 = PSU
   \<and> (CPU, RAM, Data, ''cpu-ram'') \<in> set RULE_TABLE
   \<and> map conn_id (renderConnections [(CPU, cpuAM5), (RAM, ram16)]) = [''cpu-ram'']
   \<and> map kindOf (renderConnections [(CPU, cpuAM5), (RAM, ram16)]) = [Some Data]
   \<and> ''cpu-ram'' \<in> conn_id ` set (renderConnections [(CPU, cpuAM5), (RAM, ram16)])
   \<and> renderConnections (build (handleAddPart psu650 (initialApp\<lparr>build := [(CPU, cpuAM5), (RAM, ram16)]\<rparr>)))
       = renderConnections [(CPU, cpuAM5), (RAM, ram16)]"
proof -
  have h: "{t. filled [(CPU, cpuAM5), (RAM, ram16)] t} = {CPU, RAM}"
    by (auto simp: filled_def split: if_splits)
  have t: "type psu650 = PSU"
    by (simp add: psu650_def samplePart_def)
  have r: "(CPU, RAM, Data, ''cpu-ram'') \<in> set RULE_TABLE"
    by (simp add: RULE_TABLE_def)
  have f: "filled [(CPU, cpuAM5), (RAM, ram16)] CPU \<and> filled [(CPU, cpuAM5), (RAM, ram16)] RAM"
    by (simp add: filled_def)
  note c1 = C1_edges_match_rule_table [of "[(CPU, cpuAM5), (RAM, ram16)]" psu650 initialApp]
  from c1 r
  have m: "(''cpu-ram'' \<in> conn_id ` set (renderConnections [(CPU, cpuAM5), (RAM, ram16)]))
         = (filled [(CPU, cpuAM5), (RAM, ram16)] CPU \<and> filled [(CPU, cpuAM5), (RAM, ram16)] RAM)"
    by blast
  from c1 h t
  have e: "map conn_id (renderConnections [(CPU, cpuAM5), (RAM, ram16)]) = [''cpu-ram'']
     \<and> map kindOf (renderConnections [(CPU, cpuAM5), (RAM, ram16)]) = [Some Data]
     \<and> renderConnections (build (handleAddPart psu650 (initialApp\<lparr>build := [(CPU, cpuAM5), (RAM, ram16)]\<rparr>)))
       = renderConnections [(CPU, cpuAM5), (RAM, ram16)]"
    by blast
  from h t r m f e show ?thesis by blast
qed

text \<open>
  Claim C7, as amended. The two anchor points of the connection of a fired rule are
  the centres of its two slots (\<open>x + width / 2\<close>, \<open>y + height / 2\<close>), except that the
  motherboard end of the motherboard-to-storage connection is the centre of the
  motherboard moved by (+60, +120).
\<close>

theorem C7_anchor_points:
  "map anchors (renderConnections b) =
     map (\<lambda>(src, tgt, kind, ident).
            Some (if ident = ''mobo-sata''
                  then \<lparr>pt_x = pt_x (centers src) + 60, pt_y = pt_y (centers src) + 120\<rparr>
                  else centers src,
                  centers tgt))
         (firedRules b)
   \<and> centers t = \<lparr>pt_x = coord_x (COMPONENT_COORDS t) + width (COMPONENT_COORDS t) / 2,
                   pt_y = coord_y (COMPONENT_COORDS t) + height (COMPONENT_COORDS t) / 2\<rparr>"
  by (simp add: firedRules_unfold renderConnections_def Let_def anchors_def getOrthoPath_def)
     (simp add: centers_def Let_def)

text \<open>
  The claim as stated places the motherboard end at (+60, +120) from the top-left corner
  of the motherboard, which is (80, 140); the code draws from (270, 360).
\<close>

theorem C7_counterexample:
  "map anchors (renderConnections [(MOTHERBOARD, moboAM5), (STORAGE, ssd1tb)])
     = [Some (\<lparr>pt_x = 270, pt_y = 360\<rparr>, \<lparr>pt_x = 428, pt_y = 452\<rparr>)]
   \<and> \<lparr>pt_x = coord_x (COMPONENT_COORDS MOTHERBOARD) + 60,
       pt_y = coord_y (COMPONENT_COORDS MOTHERBOARD) + 120\<rparr> = \<lparr>pt_x = 80, pt_y = 140\<rparr>
   \<and> map anchors (renderConnections [(MOTHERBOARD, moboAM5), (STORAGE, ssd1tb)])
     \<noteq> [Some (\<lparr>pt_x = coord_x (COMPONENT_COORDS MOTHERBOARD) + 60,
                 pt_y = coord_y (COMPONENT_COORDS MOTHERBOARD) + 120\<rparr>, centers STORAGE)]"
  by (simp add: renderConnections_def filled_def anchors_def Let_def centers_values)
     (simp add: COMPONENT_COORDS_def)

section \<open>Local compatibility validator\<close>

lemma warning_cases:
  "getCompatibilityWarning b p =
     (if type p = CPU \<and> map_of b MOTHERBOARD \<noteq> None then
        (case installedSocket b MOTHERBOARD of
           Inl err \<Rightarrow> Inl err
         | Inr m \<Rightarrow>
             if truthy m \<and> truthy (map_of (candidateSpecs p) ''socket'')
                \<and> m \<noteq> map_of (candidateSpecs p) ''socket''
             then Inr (Some (''Socket Mismatch: '' @ tmpl (map_of (candidateSpecs p) ''socket'')
                              @ '' vs '' @ tmpl m))
             else Inr None)
      else if type p = MOTHERBOARD \<and> map_of b CPU \<noteq> None then
        (case installedSocket b CPU of
           Inl err \<Rightarrow> Inl err
         | Inr s \<Rightarrow>
             if truthy (map_of (candidateSpecs p) ''socket'') \<and> truthy s
                \<and> map_of (candidateSpecs p) ''socket'' \<noteq> s
             then Inr (Some (''Socket Mismatch: '' @ tmpl (map_of (candidateSpecs p) ''socket'')
                              @ '' vs '' @ tmpl s))
             else Inr None)
      else Inr None)"
  by (auto simp: getCompatibilityWarning_def cpuCheck_def moboCheck_def Let_def
      split: sum.splits option.splits)

lemma installedSocket_update:
  "installedSocket (AList.update t c b) t =
     (case specs c of None \<Rightarrow> Inl TypeError | Some sp \<Rightarrow> Inr (map_of sp ''socket''))"
  by (simp add: installedSocket_def AList.update_conv')

text \<open>
  Where the installed part has its \<open>specs\<close> object, the validator does what the socket
  rule says: two non-empty sockets that differ give the warning, in the order candidate
  then installed part; equal sockets, a missing socket or an empty one give none.
\<close>

lemma socket_rule_with_specs:
  "(type p = CPU \<and> map_of (candidateSpecs p) ''socket'' = Some s
      \<and> installedSocket b MOTHERBOARD = Inr (Some m)
      \<and> s \<noteq> [] \<and> m \<noteq> [] \<and> s \<noteq> m
      \<longrightarrow> getCompatibilityWarning b p = Inr (Some (''Socket Mismatch: '' @ s @ '' vs '' @ m)))
   \<and> (type p = MOTHERBOARD \<and> map_of (candidateSpecs p) ''socket'' = Some m
      \<and> installedSocket b CPU = Inr (Some s)
      \<and> s \<noteq> [] \<and> m \<noteq> [] \<and> s \<noteq> m
      \<longrightarrow> getCompatibilityWarning b p = Inr (Some (''Socket Mismatch: '' @ m @ '' vs '' @ s)))
   \<and> (type p = CPU \<and> installedSocket b MOTHERBOARD = Inr i
      \<and> (map_of (candidateSpecs p) ''socket'' = i
           \<or> map_of (candidateSpecs p) ''socket'' \<in> {None, Some []} \<or> i \<in> {None, Some []})
      \<longrightarrow> getCompatibilityWarning b p = Inr None)
   \<and> (type p = MOTHERBOARD \<and> installedSocket b CPU = Inr i
      \<and> (map_of (candidateSpecs p) ''socket'' = i
           \<or> map_of (candidateSpecs p) ''socket'' \<in> {None, Some []} \<or> i \<in> {None, Some []})
      \<longrightarrow> getCompatibilityWarning b p = Inr None)"
proof -
  have 1: "type p = CPU \<and> map_of (candidateSpecs p) ''socket'' = Some s
      \<and> installedSocket b MOTHERBOARD = Inr (Some m)
      \<and> s \<noteq> [] \<and> m \<noteq> [] \<and> s \<noteq> m
      \<longrightarrow> getCompatibilityWarning b p = Inr (Some (''Socket Mismatch: '' @ s @ '' vs '' @ m))"
    by (auto simp: warning_cases truthy_def tmpl_def installedSocket_def split: option.splits)
  have 2: "type p = MOTHERBOARD \<and> map_of (candidateSpecs p) ''socket'' = Some m
      \<and> installedSocket b CPU = Inr (Some s)
      \<and> s \<noteq> [] \<and> m \<noteq> [] \<and> s \<noteq> m
      \<longrightarrow> getCompatibilityWarning b p = Inr (Some (''Socket Mismatch: '' @ m @ '' vs '' @ s))"
    by (auto simp: warning_cases truthy_def tmpl_def installedSocket_def split: option.splits)
  have 3: "type p = CPU \<and> installedSocket b MOTHERBOARD = Inr i
      \<and> (map_of (candidateSpecs p) ''socket'' = i
           \<or> map_of (candidateSpecs p) ''socket'' \<in> {None, Some []} \<or> i \<in> {None, Some []})
      \<longrightarrow> getCompatibilityWarning b p = Inr None"
    by (auto simp: warning_cases truthy_def split: option.splits)
  have 4: "type p = MOTHERBOARD \<and> installedSocket b CPU = Inr i
      \<and> (map_of (candidateSpecs p) ''socket'' = i
           \<or> map_of (candidateSpecs p) ''socket'' \<in> {None, Some []} \<or> i \<in> {None, Some []})
      \<longrightarrow> getCompatibilityWarning b p = Inr None"
    by (auto simp: warning_cases truthy_def split: option.splits)
  from 1 2 3 4 show ?thesis by blast
qed

lemma socket_rule_examples:
  "getCompatibilityWarning [(MOTHERBOARD, moboLGA1700)] cpuAM5
     = Inr (Some ''Socket Mismatch: AM5 vs LGA1700'')"
  "getCompatibilityWarning [(CPU, cpuAM5)] moboLGA1700
     = Inr (Some ''Socket Mismatch: LGA1700 vs AM5'')"
  "getCompatibilityWarning [(MOTHERBOARD, moboAM5)] cpuAM5 = Inr None"
  "getCompatibilityWarning [(MOTHERBOARD, moboLGA1700)] cpuNoSocket = Inr None"
  "getCompatibilityWarning [(MOTHERBOARD, moboLGA1700)] cpuEmptySocket = Inr None"
  by (simp_all add: warning_cases truthy_def tmpl_def installedSocket_def candidateSpecs_def
      cpuAM5_def cpuNoSocket_def cpuEmptySocket_def moboLGA1700_def moboAM5_def samplePart_def)

text \<open>
  Claim C2, evaluated on the code. With a motherboard installed that has no \<open>specs\<close>
  object, checking any candidate processor throws a \<open>TypeError\<close> instead of giving no
  warning; so does checking any candidate motherboard against an installed processor
  without \<open>specs\<close>. The candidate's side is guarded: a candidate processor without
  \<open>specs\<close> against a motherboard with \<open>specs\<close> gets no warning.
\<close>

theorem C2_installed_without_specs:
  "getCompatibilityWarning (AList.update MOTHERBOARD (mobo\<lparr>specs := None\<rparr>) b) (p\<lparr>type := CPU\<rparr>)
     = Inl TypeError
   \<and> getCompatibilityWarning (AList.update CPU (cpu\<lparr>specs := None\<rparr>) b) (p\<lparr>type := MOTHERBOARD\<rparr>)
     = Inl TypeError
   \<and> getCompatibilityWarning (AList.update MOTHERBOARD (mobo\<lparr>specs := Some sp\<rparr>) b)
        (p\<lparr>type := CPU, specs := None\<rparr>)
     = Inr None
   \<and> getCompatibilityWarning [(MOTHERBOARD, moboNoSpecs)] cpuAM5 = Inl TypeError"
proof -
  have 1: "getCompatibilityWarning (AList.update MOTHERBOARD (mobo\<lparr>specs := None\<rparr>) b)
             (p\<lparr>type := CPU\<rparr>) = Inl TypeError"
    by (simp add: warning_cases installedSocket_update AList.update_conv')
  have 2: "getCompatibilityWarning (AList.update CPU (cpu\<lparr>specs := None\<rparr>) b)
             (p\<lparr>type := MOTHERBOARD\<rparr>) = Inl TypeError"
    by (simp add: warning_cases installedSocket_update AList.update_conv')
  have 3: "getCompatibilityWarning (AList.update MOTHERBOARD (mobo\<lparr>specs := Some sp\<rparr>) b)
             (p\<lparr>type := CPU, specs := None\<rparr>) = Inr None"
    by (simp add: warning_cases installedSocket_update AList.update_conv' candidateSpecs_def
        truthy_def)
  have 4: "getCompatibilityWarning [(MOTHERBOARD, moboNoSpecs)] cpuAM5 = Inl TypeError"
    by (simp add: warning_cases installedSocket_def moboNoSpecs_def cpuAM5_def samplePart_def)
  from 1 2 3 4 show ?thesis by blast
qed

text \<open>
  Claim C10, evaluated on the code. The validator ends in one of three ways: it throws a
  \<open>TypeError\<close>, it returns no warning, or it returns one socket-mismatch string (for a
  processor or a motherboard only); it never gives two warnings. It does not return for
  every candidate and build: a candidate motherboard against an installed processor
  without \<open>specs\<close> throws.
\<close>

theorem C10_one_warning_or_throw:
  "(getCompatibilityWarning b p = Inl TypeError
     \<or> getCompatibilityWarning b p = Inr None
     \<or> (\<exists>x y. getCompatibilityWarning b p = Inr (Some (''Socket Mismatch: '' @ x @ '' vs '' @ y))
               \<and> (type p = CPU \<or> type p = MOTHERBOARD)))
   \<and> getCompatibilityWarning [(CPU, cpuNoSpecs)] moboAM5 = Inl TypeError
   \<and> getCompatibilityWarning [(CPU, cpuNoSpecs), (RAM, ram16)] moboLGA1700 = Inl TypeError"
proof -
  have e: "err = TypeError" for err :: js_error by (cases err) simp
  have 1: "getCompatibilityWarning b p = Inl TypeError
     \<or> getCompatibilityWarning b p = Inr None
     \<or> (\<exists>x y. getCompatibilityWarning b p = Inr (Some (''Socket Mismatch: '' @ x @ '' vs '' @ y))
               \<and> (type p = CPU \<or> type p = MOTHERBOARD))"
    unfolding warning_cases by (auto simp: e split: sum.splits)
  have 2: "getCompatibilityWarning [(CPU, cpuNoSpecs)] moboAM5 = Inl TypeError"
    by (simp add: warning_cases installedSocket_def cpuNoSpecs_def moboAM5_def samplePart_def)
  have 3: "getCompatibilityWarning [(CPU, cpuNoSpecs), (RAM, ram16)] moboLGA1700 = Inl TypeError"
    by (simp add: warning_cases installedSocket_def cpuNoSpecs_def moboLGA1700_def samplePart_def)
  from 1 2 3 show ?thesis by blast
qed

section \<open>Analysis\<close>

lemma fallback_fields:
  "asCompatibilityResult FALLBACK =
     Some \<lparr> isCompatible = True, issues = [''Could not verify compatibility (AI Error)''],
            notes_list = [], estimatedWattage = 0, bottleneck = ''Unknown'', aiScore = 0 \<rparr>"
  by (simp add: asCompatibilityResult_def FALLBACK_def)

text \<open>
  Claim C3, as amended. When the advisory call throws, returns no text, or returns text
  that is not JSON, \<open>checkCompatibility\<close> returns the fallback result (compatible,
  the single issue "Could not verify compatibility (AI Error)", no notes, wattage 0,
  bottleneck "Unknown", score 0) and raises nothing. Text that parses as JSON is returned
  as parsed, whatever its shape.
\<close>

theorem C3_fallback_on_failure:
  "checkCompatibility b Rejects = FALLBACK
   \<and> checkCompatibility b NoText = FALLBACK
   \<and> checkCompatibility b BadJson = FALLBACK
   \<and> checkCompatibility b (Parsed v) = v
   \<and> asCompatibilityResult FALLBACK =
       Some \<lparr> isCompatible = True, issues = [''Could not verify compatibility (AI Error)''],
              notes_list = [], estimatedWattage = 0, bottleneck = ''Unknown'', aiScore = 0 \<rparr>"
  by (simp add: checkCompatibility_def fallback_fields)

text \<open>
  The claim as stated fails for a response that parses and is not a well-formed result:
  the text \<open>{}\<close> is returned as the empty object, not replaced by the fallback.
\<close>

theorem C3_counterexample:
  "asCompatibilityResult (JObj []) = None
   \<and> checkCompatibility [(CPU, cpuAM5)] (Parsed (JObj [])) = JObj []
   \<and> checkCompatibility [(CPU, cpuAM5)] (Parsed (JObj [])) \<noteq> FALLBACK"
  by (simp add: asCompatibilityResult_def checkCompatibility_def FALLBACK_def)

lemma run_two_requests:
  "run [AddPart cpuAM5, RunAnalysis, AddPart moboLGA1700, RunAnalysis, Arrive 1 (Parsed resultB)]
     = \<lparr> app = \<lparr> build = [(CPU, cpuAM5), (MOTHERBOARD, moboLGA1700)], activeCategory = RAM,
                 analysis = resultB, analyzing = False, showAnalysis = True \<rparr>,
         inflight = [[(CPU, cpuAM5)]] \<rparr>"
  by (simp add: run_def initialWorld_def initialApp_def INITIAL_BUILD_def handleAddPart_def Let_def
      runAnalysis_begin_def runAnalysis_resume_def checkCompatibility_def order_def
      cpuAM5_def moboLGA1700_def samplePart_def)

lemma run_snoc: "run (evs @ [e]) = step (run evs) e"
  by (simp add: run_def)

text \<open>
  Claim C4, as amended. The response to any awaited analysis request, the newest or a
  superseded one, replaces the displayed result when it arrives and ends the analyzing
  state; the build is not touched. The result on display is that of the response that
  arrived last.
\<close>

theorem C4_last_arrival_wins:
  "i < length (inflight w) \<Longrightarrow>
     analysis (app (step w (Arrive i r))) = checkCompatibility (inflight w ! i) r
     \<and> analyzing (app (step w (Arrive i r))) = False
     \<and> build (app (step w (Arrive i r))) = build (app w)"
  by (simp add: runAnalysis_resume_def)

theorem C4_last_arrival_wins_witness:
  "0 < length (inflight (run [AddPart cpuAM5, RunAnalysis, AddPart moboLGA1700, RunAnalysis,
                              Arrive 1 (Parsed resultB)]))
   \<and> analysis (app (step (run [AddPart cpuAM5, RunAnalysis, AddPart moboLGA1700, RunAnalysis,
                                Arrive 1 (Parsed resultB)]) (Arrive 0 Rejects))) = FALLBACK
   \<and> analyzing (app (step (run [AddPart cpuAM5, RunAnalysis, AddPart moboLGA1700, RunAnalysis,
                                Arrive 1 (Parsed resultB)]) (Arrive 0 Rejects))) = False"
proof -
  have h: "0 < length (inflight (run [AddPart cpuAM5, RunAnalysis, AddPart moboLGA1700, RunAnalysis,
                              Arrive 1 (Parsed resultB)]))"
    unfolding run_two_requests by simp
  from C4_last_arrival_wins [OF h, of Rejects] h
  show ?thesis by (simp add: checkCompatibility_def)
qed

text \<open>
  The claim as stated fails: analysis is started on the build with the processor alone
  (A), a motherboard is added, analysis is started again (B), the response for B arrives
  and is displayed, then the response for A arrives and replaces it.
\<close>

theorem C4_counterexample:
  "inflight (run [AddPart cpuAM5, RunAnalysis, AddPart moboLGA1700, RunAnalysis])
     = [[(CPU, cpuAM5)], [(CPU, cpuAM5), (MOTHERBOARD, moboLGA1700)]]
   \<and> analysis (app (run [AddPart cpuAM5, RunAnalysis, AddPart moboLGA1700, RunAnalysis,
                          Arrive 1 (Parsed resultB)])) = resultB
   \<and> analysis (app (run [AddPart cpuAM5, RunAnalysis, AddPart moboLGA1700, RunAnalysis,
                          Arrive 1 (Parsed resultB), Arrive 0 (Parsed resultA)])) = resultA
   \<and> build (app (run [AddPart cpuAM5, RunAnalysis, AddPart moboLGA1700, RunAnalysis,
                          Arrive 1 (Parsed resultB), Arrive 0 (Parsed resultA)]))
       = [(CPU, cpuAM5), (MOTHERBOARD, moboLGA1700)]
   \<and> resultA \<noteq> resultB"
proof -
  have 1: "inflight (run [AddPart cpuAM5, RunAnalysis, AddPart moboLGA1700, RunAnalysis])
     = [[(CPU, cpuAM5)], [(CPU, cpuAM5), (MOTHERBOARD, moboLGA1700)]]"
    by (simp add: run_def initialWorld_def initialApp_def INITIAL_BUILD_def handleAddPart_def Let_def
      runAnalysis_begin_def order_def cpuAM5_def moboLGA1700_def samplePart_def)
  have 2: "analysis (app (run [AddPart cpuAM5, RunAnalysis, AddPart moboLGA1700, RunAnalysis,
                          Arrive 1 (Parsed resultB)])) = resultB"
    unfolding run_two_requests by simp
  have s: "run [AddPart cpuAM5, RunAnalysis, AddPart moboLGA1700, RunAnalysis,
                          Arrive 1 (Parsed resultB), Arrive 0 (Parsed resultA)]
      = step (run [AddPart cpuAM5, RunAnalysis, AddPart moboLGA1700, RunAnalysis,
                          Arrive 1 (Parsed resultB)]) (Arrive 0 (Parsed resultA))"
    using run_snoc [of "[AddPart cpuAM5, RunAnalysis, AddPart moboLGA1700, RunAnalysis,
                          Arrive 1 (Parsed resultB)]" "Arrive 0 (Parsed resultA)"] by simp
  have 3: "analysis (app (run [AddPart cpuAM5, RunAnalysis, AddPart moboLGA1700, RunAnalysis,
                          Arrive 1 (Parsed resultB), Arrive 0 (Parsed resultA)])) = resultA"
    unfolding s run_two_requests by (simp add: runAnalysis_resume_def checkCompatibility_def)
  have 4: "build (app (run [AddPart cpuAM5, RunAnalysis, AddPart moboLGA1700, RunAnalysis,
                          Arrive 1 (Parsed resultB), Arrive 0 (Parsed resultA)]))
       = [(CPU, cpuAM5), (MOTHERBOARD, moboLGA1700)]"
    unfolding s run_two_requests by (simp add: runAnalysis_resume_def)
  have 5: "resultA \<noteq> resultB"
    by (simp add: resultA_def resultB_def)
  from 1 2 3 4 5 show ?thesis by blast
qed

section \<open>Catalog fetch failure\<close>

lemma loadItems_never_error: "error (loadItems category response st) = None"
  by (cases response) (simp_all add: loadItems_def fetchComponents_def Let_def)

text \<open>
  Claim C9, evaluated on the code. When the provider rejects, \<open>fetchComponents\<close> is
  fulfilled with the empty list, so \<open>loadItems\<close> leaves \<open>error\<close> unset and the panel
  shows "No parts found." without the Retry button; no response of the provider leads to
  the error panel.
\<close>

theorem C9_fetch_failure_swallowed:
  "fetchComponents category query Rejects = Inr []
   \<and> error (loadItems category Rejects st) = None
   \<and> items (loadItems category Rejects st) = []
   \<and> listPanel (loadItems category Rejects st) = NoPartsFound
   \<and> (\<forall>response. error (loadItems category response st) = None
                   \<and> (\<forall>e. listPanel (loadItems category response st) \<noteq> ErrorWithRetry e))"
proof -
  have 1: "fetchComponents category query Rejects = Inr []"
    by (simp add: fetchComponents_def)
  have 2: "items (loadItems category Rejects st) = []"
    by (simp add: loadItems_def fetchComponents_def Let_def)
  have 3: "loading (loadItems category response st) = False" for response
    by (simp add: loadItems_def Let_def)
  have 4: "listPanel (loadItems category Rejects st) = NoPartsFound"
    by (simp add: listPanel_def 2 3 loadItems_never_error)
  have 5: "listPanel (loadItems category response st) \<noteq> ErrorWithRetry e" for response e
    by (simp add: listPanel_def 3 loadItems_never_error)
  from 1 2 4 5 loadItems_never_error show ?thesis by blast
qed

end
